theory Spec2Isabelle
  imports Main "HOL-Library.AList"
begin

section \<open>tidy.py: a shallow embedding\<close>

text \<open>
  The development follows \<^verbatim>\<open>src/tidy_cli/tidy.py\<close> function by function. Everything
  the Python code does to the outside world is explicit: the file system is a value that
  the functions take and return, standard output is a list of printed lines, and every
  exception is a value of type \<open>error\<close>. An exception leaves the world as it was
  when it was raised, so the functions return a pair of an outcome and a world.
\<close>

subsection \<open>Paths (pathlib)\<close>

text \<open>
  A \<^verbatim>\<open>Path\<close> is the list of its \<^verbatim>\<open>parts\<close>; an absolute path starts with the part
  \<open>''/''\<close>. Paths are taken normalised and absolute, as \<^verbatim>\<open>main\<close> resolves the root and
  the output directories before it calls anything else.
\<close>

type_synonym path = "string list"
type_synonym bytes = string

fun intercalate :: "string \<Rightarrow> string list \<Rightarrow> string" where
  "intercalate sep [] = []"
| "intercalate sep [x] = x"
| "intercalate sep (x # y # ys) = x @ sep @ intercalate sep (y # ys)"

definition str_path :: "path \<Rightarrow> string" where
  "str_path p =
     (case p of
        [] \<Rightarrow> ''.''
      | a # rest \<Rightarrow> if a = ''/'' then ''/'' @ intercalate ''/'' rest else intercalate ''/'' p)"

definition path_name :: "path \<Rightarrow> string" where
  "path_name p = (if p = [] \<or> p = [''/''] then [] else last p)"

definition parent :: "path \<Rightarrow> path" where
  "parent p = (if p = [] \<or> p = [''/''] then p else butlast p)"

text \<open>\<^verbatim>\<open>str.rfind\<close>: the index of the last occurrence, or \<open>-1\<close>.\<close>

definition rfind :: "string \<Rightarrow> char \<Rightarrow> int" where
  "rfind s c =
     (if c \<in> set s then int (length s - 1 - length (takeWhile (\<lambda>x. x \<noteq> c) (rev s))) else - 1)"

text \<open>
  \<^verbatim>\<open>PurePath.suffix\<close> and \<^verbatim>\<open>PurePath.stem\<close> as CPython 3.4 to 3.13 define them:
  with \<open>i = name.rfind('.')\<close>, the suffix is \<open>name[i:]\<close> when \<open>0 < i < len(name) - 1\<close>
  and empty otherwise; the stem is the rest of the name.
\<close>

definition suffix_of_name :: "string \<Rightarrow> string" where
  "suffix_of_name nm =
     (let i = rfind nm (CHR ''.'')
      in if 0 < i \<and> i < int (length nm) - 1 then drop (nat i) nm else [])"

definition stem_of_name :: "string \<Rightarrow> string" where
  "stem_of_name nm =
     (let i = rfind nm (CHR ''.'')
      in if 0 < i \<and> i < int (length nm) - 1 then take (nat i) nm else nm)"

definition suffix :: "path \<Rightarrow> string" where
  "suffix p = suffix_of_name (path_name p)"

definition stem :: "path \<Rightarrow> string" where
  "stem p = stem_of_name (path_name p)"

text \<open>
  \<^verbatim>\<open>path / name\<close> for a name that is a single component. Every string the program
  joins to a path is one: a name from a directory listing, a name built from one, or an
  extension.
\<close>

definition slash :: "path \<Rightarrow> string \<Rightarrow> path" where
  "slash p nm = p @ [nm]"

subsection \<open>Decimal numbers (f-strings)\<close>

definition digit_char :: "nat \<Rightarrow> char" where
  "digit_char d = ''0123456789'' ! d"

function str_nat :: "nat \<Rightarrow> string" where
  "str_nat n = (if n < 10 then [digit_char n] else str_nat (n div 10) @ [digit_char (n mod 10)])"
  by pat_completeness auto
termination
  by (relation "measure id") auto

declare str_nat.simps [simp del]

text \<open>Reading a decimal numeral back; used to show that \<open>str_nat\<close> is injective.\<close>

definition nat_of_digits :: "string \<Rightarrow> nat" where
  "nat_of_digits s = foldl (\<lambda>a c. 10 * a + (of_char c - 48)) 0 s"

subsection \<open>The file system\<close>

text \<open>
  A file system is an association list from paths to nodes; its order is the order in
  which a directory listing returns the entries. A regular file carries its content, its
  modification time and whether it may be read. A symbolic link carries its target.
  \<open>Special\<close> stands for FIFOs, sockets and devices.
\<close>

datatype node = RegFile bytes int bool | Dir | Symlink path | Special

type_synonym fs = "(path \<times> node) list"

datatype error =
    FileNotFoundError | FileExistsError | NotADirectoryError | IsADirectoryError
  | PermissionError | OSError | ShutilError | ValueError string | SystemExit nat

text \<open>What \<^verbatim>\<open>except OSError\<close> catches.\<close>

fun is_OSError :: "error \<Rightarrow> bool" where
  "is_OSError (ValueError m) = False"
| "is_OSError (SystemExit c) = False"
| "is_OSError e = True"

text \<open>
  \<^verbatim>\<open>stat\<close> follows symbolic links, at most 40 of them (\<^verbatim>\<open>ELOOP\<close> beyond); links in
  the directory part of a path are not modelled.
\<close>

fun follow :: "nat \<Rightarrow> fs \<Rightarrow> path \<Rightarrow> node option" where
  "follow 0 fs p = None"
| "follow (Suc k) fs p =
     (case map_of fs p of
        Some (Symlink t) \<Rightarrow> follow k fs t
      | r \<Rightarrow> r)"

definition stat_node :: "fs \<Rightarrow> path \<Rightarrow> node option" where
  "stat_node fs p = follow 40 fs p"

definition path_exists :: "fs \<Rightarrow> path \<Rightarrow> bool" where
  "path_exists fs p = (stat_node fs p \<noteq> None)"

definition is_file :: "fs \<Rightarrow> path \<Rightarrow> bool" where
  "is_file fs p = (case stat_node fs p of Some (RegFile c m r) \<Rightarrow> True | _ \<Rightarrow> False)"

definition is_dir :: "fs \<Rightarrow> path \<Rightarrow> bool" where
  "is_dir fs p = (case stat_node fs p of Some Dir \<Rightarrow> True | _ \<Rightarrow> False)"

definition islink :: "fs \<Rightarrow> path \<Rightarrow> bool" where
  "islink fs p = (case map_of fs p of Some (Symlink t) \<Rightarrow> True | _ \<Rightarrow> False)"

text \<open>\<^verbatim>\<open>Path.resolve\<close> on a normalised absolute path: follow the links of the last part.\<close>

fun resolve_n :: "nat \<Rightarrow> fs \<Rightarrow> path \<Rightarrow> path" where
  "resolve_n 0 fs p = p"
| "resolve_n (Suc k) fs p =
     (case map_of fs p of
        Some (Symlink t) \<Rightarrow> resolve_n k fs t
      | _ \<Rightarrow> p)"

definition resolve :: "fs \<Rightarrow> path \<Rightarrow> path" where
  "resolve fs p = resolve_n 40 fs p"

text \<open>\<^verbatim>\<open>os.mkdir\<close>: the entry must be new and its parent an existing directory.\<close>

definition os_mkdir :: "fs \<Rightarrow> path \<Rightarrow> error + fs" where
  "os_mkdir fs d =
     (if map_of fs d \<noteq> None then Inl FileExistsError
      else case stat_node fs (parent d) of
             None \<Rightarrow> Inl FileNotFoundError
           | Some Dir \<Rightarrow> Inr (fs @ [(d, Dir)])
           | Some n \<Rightarrow> Inl NotADirectoryError)"

text \<open>
  \<^verbatim>\<open>Path.mkdir(parents=True, exist_ok=True)\<close>, as pathlib writes it: try
  \<^verbatim>\<open>os.mkdir\<close>; on \<^verbatim>\<open>FileNotFoundError\<close> make the parent first and try again; any
  other \<^verbatim>\<open>OSError\<close> is swallowed when the path is a directory already.
\<close>

function mkdir_parents :: "fs \<Rightarrow> path \<Rightarrow> error + fs" where
  "mkdir_parents fs d =
     (case os_mkdir fs d of
        Inr fs' \<Rightarrow> Inr fs'
      | Inl e \<Rightarrow>
          if e = FileNotFoundError then
            (if parent d = d then Inl e
             else case mkdir_parents fs (parent d) of
                    Inl e' \<Rightarrow> Inl e'
                  | Inr fs' \<Rightarrow>
                      (case os_mkdir fs' d of
                         Inr fs'' \<Rightarrow> Inr fs''
                       | Inl e2 \<Rightarrow>
                           if e2 \<noteq> FileNotFoundError \<and> is_dir fs' d then Inr fs' else Inl e2))
          else if is_dir fs d then Inr fs else Inl e)"
  by pat_completeness auto
termination
  by (relation "measure (\<lambda>(fs, d). length d)") (auto simp: parent_def split: if_splits)

declare mkdir_parents.simps [simp del]

definition ensure_directory :: "fs \<Rightarrow> path \<Rightarrow> error + fs" where
  "ensure_directory fs directory = mkdir_parents fs directory"

text \<open>
  \<^verbatim>\<open>os.rename\<close> of an entry that is not a directory (the program moves only paths
  that \<^verbatim>\<open>is_file\<close> accepted): the source entry must be there, the parent of the
  destination must be a directory, a directory at the destination is refused, and any
  other entry at the destination is replaced.
\<close>

definition os_rename :: "fs \<Rightarrow> path \<Rightarrow> path \<Rightarrow> error + fs" where
  "os_rename fs src dst =
     (case map_of fs src of
        None \<Rightarrow> Inl FileNotFoundError
      | Some Dir \<Rightarrow> Inl OSError
      | Some n \<Rightarrow>
          if \<not> is_dir fs (parent dst) then Inl FileNotFoundError
          else if map_of fs dst = Some Dir then Inl IsADirectoryError
          else if src = dst then Inr fs
          else Inr (AList.update dst n (AList.delete src fs)))"

text \<open>
  \<^verbatim>\<open>shutil.move\<close>: a destination that is a directory receives the source under its
  own name, unless that name is taken; otherwise the source is renamed. One device is
  modelled, so the copy-and-delete fallback after a failed rename fails as the rename did.
\<close>

definition shutil_move :: "fs \<Rightarrow> path \<Rightarrow> path \<Rightarrow> error + fs" where
  "shutil_move fs src dst =
     (if is_dir fs dst then
        (let real_dst = slash dst (path_name src)
         in if path_exists fs real_dst then Inl ShutilError else os_rename fs src real_dst)
      else os_rename fs src dst)"

subsection \<open>The world: file system and standard output\<close>

record world =
  filesystem :: fs
  stdout :: "string list"
  hash_calls :: "path list"

text \<open>
  \<open>hash_calls\<close> records the paths \<^verbatim>\<open>compute_file_hash\<close> was called on, in order. It
  is what a counting fingerprint function injected in a test would observe.
\<close>

definition print :: "string \<Rightarrow> world \<Rightarrow> world" where
  "print line w = w\<lparr>stdout := stdout w @ [line]\<rparr>"

definition print_action :: "string \<Rightarrow> bool \<Rightarrow> world \<Rightarrow> world" where
  "print_action message dry_run w =
     (let prefix = (if dry_run then ''[DRY-RUN] '' else '''')
      in print (prefix @ message) w)"

subsection \<open>safe\_move\<close>

text \<open>The candidate \<^verbatim>\<open>parent / f"{stem}__{counter}{suffix}"\<close>.\<close>

definition candidate :: "path \<Rightarrow> nat \<Rightarrow> path" where
  "candidate dest counter =
     slash (parent dest) (stem dest @ ''__'' @ str_nat counter @ suffix dest)"

lemma of_char_digit_char: "d < 10 \<Longrightarrow> of_char (digit_char d) = 48 + d"
proof -
  assume "d < 10"
  then have "d = 0 \<or> d = 1 \<or> d = 2 \<or> d = 3 \<or> d = 4 \<or> d = 5 \<or> d = 6 \<or> d = 7
    \<or> d = 8 \<or> d = 9"
    by arith
  then show ?thesis
    by (elim disjE) (simp_all add: digit_char_def)
qed

lemma nat_of_digits_snoc:
  "nat_of_digits (s @ [c]) = 10 * nat_of_digits s + (of_char c - 48)"
  by (simp add: nat_of_digits_def)

lemma nat_of_digits_str_nat: "nat_of_digits (str_nat n) = n"
proof (induction n rule: str_nat.induct)
  case (1 n)
  show ?case
  proof (cases "n < 10")
    case True
    then show ?thesis
      by (subst str_nat.simps) (simp add: nat_of_digits_def of_char_digit_char)
  next
    case False
    have "nat_of_digits (str_nat n) = 10 * nat_of_digits (str_nat (n div 10)) + n mod 10"
      using False
      by (subst str_nat.simps) (simp add: nat_of_digits_snoc of_char_digit_char)
    with 1 False show ?thesis by simp
  qed
qed

lemma str_nat_inj: "str_nat m = str_nat n \<Longrightarrow> m = n"
  by (metis nat_of_digits_str_nat)

lemma candidate_inj: "candidate dest m = candidate dest n \<Longrightarrow> m = n"
  by (simp add: candidate_def slash_def str_nat_inj)

lemma path_exists_keys: "path_exists fs p \<Longrightarrow> p \<in> fst ` set fs"
proof -
  have "follow k fs p \<noteq> None \<Longrightarrow> map_of fs p \<noteq> None" for k
    by (cases k) (auto split: option.splits)
  then have "follow k fs p \<noteq> None \<Longrightarrow> p \<in> fst ` set fs" for k
    by (simp add: map_of_eq_None_iff)
  then show "path_exists fs p \<Longrightarrow> p \<in> fst ` set fs"
    by (simp add: path_exists_def stat_node_def)
qed

lemma finite_taken: "finite {n. path_exists fs (candidate dest n)}"
proof -
  have "{n. path_exists fs (candidate dest n)} \<subseteq> candidate dest -` (fst ` set fs)"
    using path_exists_keys by auto
  moreover have "finite (candidate dest -` (fst ` set fs))"
    by (rule finite_vimageI) (auto simp: inj_on_def dest: candidate_inj)
  ultimately show ?thesis by (rule finite_subset)
qed

text \<open>
  The \<^verbatim>\<open>while True\<close> loop of \<^verbatim>\<open>safe_move\<close>, started at \<open>counter\<close>. It ends because
  the candidates of different counters are different paths and a file system holds
  finitely many entries.
\<close>

function safe_move_loop :: "fs \<Rightarrow> path \<Rightarrow> nat \<Rightarrow> path" where
  "safe_move_loop fs dest counter =
     (let cand = candidate dest counter
      in if \<not> path_exists fs cand then cand
         else safe_move_loop fs dest (counter + 1))"
  by pat_completeness auto
termination
proof (relation "measure (\<lambda>(fs, dest, counter).
         card {n. counter \<le> n \<and> path_exists fs (candidate dest n)})")
  show "wf (measure (\<lambda>(fs, dest, counter).
         card {n. counter \<le> n \<and> path_exists fs (candidate dest n)}))"
    by simp
next
  fix fs :: fs and dest :: path and counter :: nat and x :: path
  assume x: "x = candidate dest counter" and ex: "\<not> \<not> path_exists fs x"
  let ?A = "{n. counter + 1 \<le> n \<and> path_exists fs (candidate dest n)}"
  let ?B = "{n. counter \<le> n \<and> path_exists fs (candidate dest n)}"
  have fin: "finite ?B"
    by (rule finite_subset [OF _ finite_taken [of fs dest]]) auto
  have "counter \<in> ?B" "counter \<notin> ?A"
    using x ex by auto
  moreover have "?A \<subseteq> ?B" by auto
  ultimately have "?A \<subset> ?B" by blast
  then have "card ?A < card ?B"
    using fin by (rule psubset_card_mono [rotated])
  then show "((fs, dest, counter + 1), (fs, dest, counter)) \<in> measure (\<lambda>(fs, dest, counter).
         card {n. counter \<le> n \<and> path_exists fs (candidate dest n)})"
    by simp
qed

declare safe_move_loop.simps [simp del]

text \<open>
  \<^verbatim>\<open>safe_move\<close>: make the parent directory, pick a destination that does not exist,
  print the move, and carry it out unless \<open>dry_run\<close>.
\<close>

definition safe_move :: "path \<Rightarrow> path \<Rightarrow> bool \<Rightarrow> world \<Rightarrow> (error + unit) \<times> world" where
  "safe_move src dest dry_run w =
     (case ensure_directory (filesystem w) (parent dest) of
        Inl e \<Rightarrow> (Inl e, w)
      | Inr fs1 \<Rightarrow>
          (let w1 = w\<lparr>filesystem := fs1\<rparr>;
               dest' = (if path_exists fs1 dest then safe_move_loop fs1 dest 1 else dest);
               w2 = print_action (''move '' @ str_path src @ '' -> '' @ str_path dest') dry_run w1
           in if \<not> dry_run then
                (case shutil_move (filesystem w2) src dest' of
                   Inl e \<Rightarrow> (Inl e, w2)
                 | Inr fs2 \<Rightarrow> (Inr (), w2\<lparr>filesystem := fs2\<rparr>))
              else (Inr (), w2)))"

subsection \<open>Collaborators outside the program\<close>

text \<open>
  Library functions whose results the program only passes on are parameters:
  \<^verbatim>\<open>fnmatch.fnmatch\<close>, the SHA-256 hex digest of a byte string,
  \<^verbatim>\<open>time.localtime\<close> (year and month), whether the \<^verbatim>\<open>cryptography\<close> package can be
  imported, \<^verbatim>\<open>Fernet.generate_key()\<close>, \<^verbatim>\<open>os.urandom\<close>,
  \<^verbatim>\<open>base64.urlsafe_b64encode\<close>, whether \<^verbatim>\<open>Fernet(key)\<close> accepts a key,
  \<^verbatim>\<open>Fernet.encrypt\<close>, and the clock that stamps a written file.
\<close>

record env =
  fnmatch_fn :: "string \<Rightarrow> string \<Rightarrow> bool"
  sha256_hexdigest :: "bytes \<Rightarrow> string"
  time_localtime :: "int \<Rightarrow> nat \<times> nat"
  cryptography_installed :: bool
  fernet_generate_key :: bytes
  os_urandom :: "nat \<Rightarrow> bytes"
  urlsafe_b64encode :: "bytes \<Rightarrow> bytes"
  fernet_valid_key :: "bytes \<Rightarrow> bool"
  fernet_encrypt :: "bytes \<Rightarrow> bytes \<Rightarrow> bytes"
  time_now :: int

subsection \<open>is\_hidden, should\_skip, iter\_files\<close>

definition startswith :: "string \<Rightarrow> string \<Rightarrow> bool" where
  "startswith s pre = (take (length pre) s = pre)"

definition is_hidden :: "path \<Rightarrow> bool" where
  "is_hidden p = list_ex (\<lambda>part. startswith part ''.'') p"

definition should_skip :: "env \<Rightarrow> path \<Rightarrow> bool \<Rightarrow> string list \<Rightarrow> bool" where
  "should_skip env p include_hidden exclude_globs =
     (if \<not> include_hidden \<and> is_hidden p then True
      else list_ex (\<lambda>pattern. fnmatch_fn env (str_path p) pattern) exclude_globs)"

text \<open>\<^verbatim>\<open>os.scandir\<close>: the names of the entries of a directory, in listing order.\<close>

definition scandir :: "fs \<Rightarrow> path \<Rightarrow> string list" where
  "scandir fs topdir = map (\<lambda>(p, n). last p) (filter (\<lambda>(p, n). p \<noteq> [] \<and> butlast p = topdir) fs)"

definition max_depth :: "fs \<Rightarrow> nat" where
  "max_depth fs = foldr (\<lambda>(p, n) m. max (length p) m) fs 0"

lemma max_depth_ge: "(p, n) \<in> set fs \<Longrightarrow> length p \<le> max_depth fs"
  by (induction fs) (auto simp: max_depth_def)

lemma scandir_deeper: "nm \<in> set (scandir fs topdir) \<Longrightarrow> length topdir < max_depth fs"
proof -
  assume "nm \<in> set (scandir fs topdir)"
  then obtain p n where "(p, n) \<in> set fs" "p \<noteq> []" "butlast p = topdir"
    by (auto simp: scandir_def)
  then show ?thesis
    using max_depth_ge [of p n fs] by (cases p rule: rev_cases) auto
qed

text \<open>
  \<^verbatim>\<open>os.walk(top)\<close>, top down, not following links: the triples
  \<open>(dirpath, dirnames, filenames)\<close> in the order they are produced. An entry is a
  directory name when \<^verbatim>\<open>is_dir\<close> (which follows links) says so; the walk goes down
  into the directory names the caller left in the list, except the symbolic links.
  \<open>keep\<close> is the caller's pruning of \<open>dirnames\<close> between the production of a triple
  and the descent. A top directory that cannot be listed produces nothing.

  \<^verbatim>\<open>iter_files\<close> is a generator in the source: a directory is listed when the walk
  reaches it. Here the whole walk is read from the file system as it is when the walk
  starts. \<^verbatim>\<open>find_duplicates\<close> consumes the generator before anything is changed, so
  nothing is lost there. \<^verbatim>\<open>organize_files\<close> and \<^verbatim>\<open>encrypt_tree\<close> change the
  file system while they iterate; the two readings differ only when an entry is created,
  or a link becomes valid, in a directory that the walk has not reached yet. The example
  worlds below are chosen so that this does not happen.
\<close>

function os_walk :: "(string \<Rightarrow> bool) \<Rightarrow> fs \<Rightarrow> path \<Rightarrow> (path \<times> string list \<times> string list) list" where
  "os_walk keep fs topdir =
     (if \<not> is_dir fs topdir then []
      else (topdir, filter keep (filter (\<lambda>nm. is_dir fs (slash topdir nm)) (scandir fs topdir)),
                 filter (\<lambda>nm. \<not> is_dir fs (slash topdir nm)) (scandir fs topdir))
           # concat (map (\<lambda>nm. os_walk keep fs (slash topdir nm))
                (filter (\<lambda>nm. \<not> islink fs (slash topdir nm))
                   (filter keep (filter (\<lambda>nm. is_dir fs (slash topdir nm)) (scandir fs topdir))))))"
  by pat_completeness auto
termination
  by (relation "measure (\<lambda>(keep, fs, topdir). Suc (max_depth fs) - length topdir)")
     (auto simp: slash_def dest: scandir_deeper)

declare os_walk.simps [simp del]

definition iter_files :: "env \<Rightarrow> fs \<Rightarrow> path \<Rightarrow> bool \<Rightarrow> string list \<Rightarrow> path list" where
  "iter_files env fs root_dir include_hidden exclude_globs =
     concat (map (\<lambda>(dirpath, dirnames, filenames).
                filter (\<lambda>file_path. is_file fs file_path \<and>
                          \<not> should_skip env file_path include_hidden exclude_globs)
                  (map (slash dirpath) filenames))
       (os_walk (\<lambda>d. include_hidden \<or> \<not> startswith d ''.'') fs root_dir))"

subsection \<open>compute\_file\_hash, group\_files\_by\_size, find\_duplicates\<close>

text \<open>Opening a file for reading and reading it (\<^verbatim>\<open>open('rb')\<close>, \<^verbatim>\<open>read_bytes\<close>).\<close>

definition read_bytes :: "fs \<Rightarrow> path \<Rightarrow> error + bytes" where
  "read_bytes fs p =
     (case stat_node fs p of
        None \<Rightarrow> Inl FileNotFoundError
      | Some (RegFile content mtime readable) \<Rightarrow> if readable then Inr content else Inl PermissionError
      | Some Dir \<Rightarrow> Inl IsADirectoryError
      | Some n \<Rightarrow> Inl OSError)"

text \<open>
  The read loop of \<^verbatim>\<open>compute_file_hash\<close>: \<open>hasher\<close> is the hash object, modelled by
  the bytes it has been fed; \<open>remaining\<close> is what the file has left to read.
\<close>

function hash_chunks :: "nat \<Rightarrow> bytes \<Rightarrow> bytes \<Rightarrow> bytes" where
  "hash_chunks chunk_size remaining hasher =
     (let chunk = take chunk_size remaining
      in if chunk = [] then hasher
         else hash_chunks chunk_size (drop chunk_size remaining) (hasher @ chunk))"
  by pat_completeness auto
termination
  by (relation "measure (\<lambda>(chunk_size, remaining, hasher). length remaining)") auto

declare hash_chunks.simps [simp del]

definition compute_file_hash :: "env \<Rightarrow> path \<Rightarrow> world \<Rightarrow> (error + string) \<times> world" where
  "compute_file_hash env file_path w =
     (let w1 = w\<lparr>hash_calls := hash_calls w @ [file_path]\<rparr>
      in case read_bytes (filesystem w1) file_path of
           Inl e \<Rightarrow> (Inl e, w1)
         | Inr content \<Rightarrow> (Inr (sha256_hexdigest env (hash_chunks (1024 * 1024) content [])), w1))"

text \<open>\<^verbatim>\<open>Path.stat\<close>: size and modification time, or \<open>None\<close> for the \<^verbatim>\<open>OSError\<close> it raises.
  Only regular files carry them in this model; the program stats nothing else.\<close>

definition os_stat :: "fs \<Rightarrow> path \<Rightarrow> (nat \<times> int) option" where
  "os_stat fs p =
     (case stat_node fs p of
        Some (RegFile content mtime readable) \<Rightarrow> Some (length content, mtime)
      | Some n \<Rightarrow> Some (0, 0)
      | None \<Rightarrow> None)"

text \<open>\<^verbatim>\<open>d.setdefault(k, []).append(v)\<close> on a dictionary kept in insertion order.\<close>

fun setdefault_append :: "'k \<Rightarrow> 'v \<Rightarrow> ('k \<times> 'v list) list \<Rightarrow> ('k \<times> 'v list) list" where
  "setdefault_append k v [] = [(k, [v])]"
| "setdefault_append k v ((k', vs) # rest) =
     (if k = k' then (k', vs @ [v]) # rest else (k', vs) # setdefault_append k v rest)"

text \<open>\<^verbatim>\<open>file_path.stat().st_size\<close>.\<close>

definition st_size :: "fs \<Rightarrow> path \<Rightarrow> nat option" where
  "st_size fs p = map_option fst (os_stat fs p)"

definition group_files_by_size :: "fs \<Rightarrow> path list \<Rightarrow> (nat \<times> path list) list" where
  "group_files_by_size fs files =
     foldl (\<lambda>size_to_files file_path.
              case st_size fs file_path of
                None \<Rightarrow> size_to_files
              | Some sz \<Rightarrow> setdefault_append sz file_path size_to_files)
       [] files"

text \<open>The inner and the outer loop of \<^verbatim>\<open>find_duplicates\<close>.\<close>

fun hash_paths ::
  "env \<Rightarrow> path list \<Rightarrow> (string \<times> path list) list \<Rightarrow> world \<Rightarrow>
     (error + (string \<times> path list) list) \<times> world" where
  "hash_paths env [] hash_to_files w = (Inr hash_to_files, w)"
| "hash_paths env (p # paths) hash_to_files w =
     (case compute_file_hash env p w of
        (Inl e, w') \<Rightarrow>
          if is_OSError e then hash_paths env paths hash_to_files w' else (Inl e, w')
      | (Inr digest, w') \<Rightarrow> hash_paths env paths (setdefault_append digest p hash_to_files) w')"

fun hash_buckets ::
  "env \<Rightarrow> (nat \<times> path list) list \<Rightarrow> (string \<times> path list) list \<Rightarrow> world \<Rightarrow>
     (error + (string \<times> path list) list) \<times> world" where
  "hash_buckets env [] hash_to_files w = (Inr hash_to_files, w)"
| "hash_buckets env ((sz, paths) # rest) hash_to_files w =
     (if length paths < 2 then hash_buckets env rest hash_to_files w
      else case hash_paths env paths hash_to_files w of
             (Inl e, w') \<Rightarrow> (Inl e, w')
           | (Inr hash_to_files', w') \<Rightarrow> hash_buckets env rest hash_to_files' w')"

definition find_duplicates ::
  "env \<Rightarrow> path \<Rightarrow> bool \<Rightarrow> string list \<Rightarrow> world \<Rightarrow> (error + (string \<times> path list) list) \<times> world" where
  "find_duplicates env root_dir include_hidden exclude_globs w =
     (let candidates_by_size =
            group_files_by_size (filesystem w)
              (iter_files env (filesystem w) root_dir include_hidden exclude_globs)
      in case hash_buckets env candidates_by_size [] w of
           (Inl e, w') \<Rightarrow> (Inl e, w')
         | (Inr hash_to_files, w') \<Rightarrow>
             (Inr (filter (\<lambda>(h, ps). length ps > 1) hash_to_files), w'))"

subsection \<open>dedupe\_action\<close>

text \<open>
  \<^verbatim>\<open>min(paths, key=...)\<close>: the first element whose key is least; \<open>None\<close> for the
  \<^verbatim>\<open>ValueError\<close> on an empty list.
\<close>

fun py_min :: "('a \<Rightarrow> nat) \<Rightarrow> 'a list \<Rightarrow> 'a option" where
  "py_min key [] = None"
| "py_min key (x # xs) = Some (foldl (\<lambda>best p. if key p < key best then p else best) x xs)"

text \<open>\<^verbatim>\<open>Path.unlink\<close>: removes the entry itself, never a directory.\<close>

definition unlink :: "fs \<Rightarrow> path \<Rightarrow> error + fs" where
  "unlink fs p =
     (case map_of fs p of
        None \<Rightarrow> Inl FileNotFoundError
      | Some Dir \<Rightarrow> Inl IsADirectoryError
      | Some n \<Rightarrow> Inr (AList.delete p fs))"

text \<open>The text of an exception in an f-string.\<close>

fun str_exc :: "error \<Rightarrow> string" where
  "str_exc FileNotFoundError = ''[Errno 2] No such file or directory''"
| "str_exc FileExistsError = ''[Errno 17] File exists''"
| "str_exc NotADirectoryError = ''[Errno 20] Not a directory''"
| "str_exc IsADirectoryError = ''[Errno 21] Is a directory''"
| "str_exc PermissionError = ''[Errno 13] Permission denied''"
| "str_exc OSError = ''[Errno 40] Too many levels of symbolic links''"
| "str_exc ShutilError = ''Destination path already exists''"
| "str_exc (ValueError m) = m"
| "str_exc (SystemExit c) = str_nat c"

text \<open>The horizontal ellipsis of the \<^verbatim>\<open>keep\<close> line, as its three UTF-8 bytes.\<close>

definition ellipsis :: string where
  "ellipsis = [CHR 0xE2, CHR 0x80, CHR 0xA6]"

text \<open>
  The loop \<^verbatim>\<open>for dup in others\<close>; \<open>operated_files\<close> is threaded through. An exception
  that the body does not catch ends the loop and the run.
\<close>

fun dedupe_others ::
  "string \<Rightarrow> path \<Rightarrow> bool \<Rightarrow> path list \<Rightarrow> nat \<Rightarrow> world \<Rightarrow> (error + nat) \<times> world" where
  "dedupe_others mode duplicates_dir dry_run [] operated_files w = (Inr operated_files, w)"
| "dedupe_others mode duplicates_dir dry_run (dup # others) operated_files w =
     (if mode = ''report'' then
        dedupe_others mode duplicates_dir dry_run others operated_files
          (print_action (''duplicate: '' @ str_path dup) True w)
      else if mode = ''move'' then
        (case safe_move dup (slash duplicates_dir (path_name dup)) dry_run w of
           (Inl e, w') \<Rightarrow> (Inl e, w')
         | (Inr u, w') \<Rightarrow>
             dedupe_others mode duplicates_dir dry_run others (operated_files + 1) w')
      else if mode = ''delete'' then
        (let w1 = print_action (''delete '' @ str_path dup) dry_run w
         in if \<not> dry_run then
              (case unlink (filesystem w1) dup of
                 Inr fs' \<Rightarrow>
                   dedupe_others mode duplicates_dir dry_run others (operated_files + 1)
                     (w1\<lparr>filesystem := fs'\<rparr>)
               | Inl exc \<Rightarrow>
                   if is_OSError exc then
                     dedupe_others mode duplicates_dir dry_run others operated_files
                       (print (''Failed to delete '' @ str_path dup @ '': '' @ str_exc exc) w1)
                   else (Inl exc, w1))
            else dedupe_others mode duplicates_dir dry_run others operated_files w1)
      else (Inl (ValueError ''Invalid dedupe mode''), w))"

text \<open>The member of a duplicate group that is kept, and the members that are not.\<close>

definition keep_original :: "path list \<Rightarrow> path option" where
  "keep_original paths = py_min (\<lambda>p. length (str_path p)) paths"

definition others_of :: "path \<Rightarrow> path list \<Rightarrow> path list" where
  "others_of original paths = filter (\<lambda>p. p \<noteq> original) paths"

text \<open>What report mode prints for one group: the keep line, then a line for every other member.\<close>

definition report_lines :: "string \<times> path list \<Rightarrow> string list" where
  "report_lines g =
     (case g of (digest, paths) \<Rightarrow>
        (case keep_original paths of
           None \<Rightarrow> []
         | Some original \<Rightarrow>
             (''Hash '' @ take 12 digest @ ellipsis @ '' keep: '' @ str_path original) #
             map (\<lambda>p. ''[DRY-RUN] duplicate: '' @ str_path p) (others_of original paths)))"

text \<open>The loop \<^verbatim>\<open>for digest, paths in duplicates.items()\<close>.\<close>

fun dedupe_groups ::
  "string \<Rightarrow> path \<Rightarrow> bool \<Rightarrow> (string \<times> path list) list \<Rightarrow> nat \<Rightarrow> world \<Rightarrow>
     (error + nat) \<times> world" where
  "dedupe_groups mode duplicates_dir dry_run [] operated_files w = (Inr operated_files, w)"
| "dedupe_groups mode duplicates_dir dry_run ((digest, paths) # rest) operated_files w =
     (case keep_original paths of
        None \<Rightarrow> (Inl (ValueError ''min() arg is an empty sequence''), w)
      | Some original \<Rightarrow>
          (let others = others_of original paths;
               w1 = print (''Hash '' @ take 12 digest @ ellipsis @ '' keep: '' @ str_path original) w
           in case dedupe_others mode duplicates_dir dry_run others operated_files w1 of
                (Inl e, w') \<Rightarrow> (Inl e, w')
              | (Inr operated_files', w') \<Rightarrow>
                  dedupe_groups mode duplicates_dir dry_run rest operated_files' w'))"

definition dedupe_action ::
  "env \<Rightarrow> path \<Rightarrow> string \<Rightarrow> path \<Rightarrow> bool \<Rightarrow> string list \<Rightarrow> bool \<Rightarrow> world \<Rightarrow>
     (error + nat \<times> nat) \<times> world" where
  "dedupe_action env root_dir mode duplicates_dir include_hidden exclude_globs dry_run w =
     (case find_duplicates env root_dir include_hidden exclude_globs w of
        (Inl e, w') \<Rightarrow> (Inl e, w')
      | (Inr duplicates, w1) \<Rightarrow>
          if duplicates = [] then (Inr (0, 0), print ''No duplicates found.'' w1)
          else
            (let w2 = print (''Found '' @ str_nat (length duplicates) @ '' duplicate groups.'') w1
             in case dedupe_groups mode duplicates_dir dry_run duplicates 0 w2 of
                  (Inl e, w') \<Rightarrow> (Inl e, w')
                | (Inr operated_files, w') \<Rightarrow> (Inr (length duplicates, operated_files), w')))"

subsection \<open>organize\_files\<close>

text \<open>\<^verbatim>\<open>str.lower\<close> on ASCII letters, \<^verbatim>\<open>lstrip('.')\<close>, and the zero-padded format
  \<^verbatim>\<open>{n:04d}\<close> of an f-string.\<close>

definition lower_char :: "char \<Rightarrow> char" where
  "lower_char c =
     (case map_of (zip ''ABCDEFGHIJKLMNOPQRSTUVWXYZ'' ''abcdefghijklmnopqrstuvwxyz'') c of
        Some l \<Rightarrow> l
      | None \<Rightarrow> c)"

definition lower :: "string \<Rightarrow> string" where
  "lower s = map lower_char s"

definition lstrip_dots :: "string \<Rightarrow> string" where
  "lstrip_dots s = dropWhile (\<lambda>c. c = CHR ''.'') s"

definition zero_pad :: "nat \<Rightarrow> string \<Rightarrow> string" where
  "zero_pad width s = replicate (width - length s) (CHR ''0'') @ s"

text \<open>The \<^verbatim>\<open>try\<close> block of \<^verbatim>\<open>organize_files\<close>: the target directory of one file.\<close>

definition organize_target_dir :: "env \<Rightarrow> fs \<Rightarrow> string \<Rightarrow> path \<Rightarrow> path \<Rightarrow> error + path" where
  "organize_target_dir env fs organize_mode organize_dir file_path =
     (if organize_mode = ''ext'' then
        (let e = lstrip_dots (lower (suffix file_path));
             ext = (if e = [] then ''noext'' else e)
         in Inr (slash organize_dir ext))
      else if organize_mode = ''date'' then
        (case os_stat fs file_path of
           None \<Rightarrow> Inl FileNotFoundError
         | Some (sz, mtime) \<Rightarrow>
             (case time_localtime env mtime of
                (tm_year, tm_mon) \<Rightarrow>
                  Inr (slash (slash organize_dir (zero_pad 4 (str_nat tm_year)))
                         (zero_pad 2 (str_nat tm_mon)))))
      else Inl (ValueError ''Invalid organize mode''))"

fun organize_loop ::
  "env \<Rightarrow> string \<Rightarrow> path \<Rightarrow> bool \<Rightarrow> path list \<Rightarrow> nat \<Rightarrow> world \<Rightarrow> (error + nat) \<times> world" where
  "organize_loop env organize_mode organize_dir dry_run [] n w = (Inr n, w)"
| "organize_loop env organize_mode organize_dir dry_run (file_path # files) n w =
     (case organize_target_dir env (filesystem w) organize_mode organize_dir file_path of
        Inl e \<Rightarrow>
          if is_OSError e then organize_loop env organize_mode organize_dir dry_run files n w
          else (Inl e, w)
      | Inr target_dir \<Rightarrow>
          (let target_path = slash target_dir (path_name file_path)
           in if resolve (filesystem w) target_path = resolve (filesystem w) file_path then
                organize_loop env organize_mode organize_dir dry_run files n w
              else
                (case safe_move file_path target_path dry_run w of
                   (Inl e, w') \<Rightarrow> (Inl e, w')
                 | (Inr u, w') \<Rightarrow>
                     organize_loop env organize_mode organize_dir dry_run files (n + 1) w')))"

definition organize_files ::
  "env \<Rightarrow> path \<Rightarrow> string \<Rightarrow> path \<Rightarrow> bool \<Rightarrow> string list \<Rightarrow> bool \<Rightarrow> world \<Rightarrow>
     (error + nat) \<times> world" where
  "organize_files env root_dir organize_mode organize_dir include_hidden exclude_globs dry_run w =
     (case organize_loop env organize_mode organize_dir dry_run
             (iter_files env (filesystem w) root_dir include_hidden exclude_globs) 0 w of
        (Inl e, w') \<Rightarrow> (Inl e, w')
      | (Inr n, w') \<Rightarrow>
          (Inr n, if n = 0 then print ''No files to organize or already organized.'' w' else w'))"

subsection \<open>read\_or\_create\_key, encrypt\_file, encrypt\_tree\<close>

text \<open>\<^verbatim>\<open>bytes.strip()\<close>: ASCII white space off both ends.\<close>

definition is_space :: "char \<Rightarrow> bool" where
  "is_space c = (c \<in> set [CHR 0x20, CHR 0x09, CHR 0x0A, CHR 0x0D, CHR 0x0B, CHR 0x0C])"

definition strip :: "bytes \<Rightarrow> bytes" where
  "strip s = rev (dropWhile is_space (rev (dropWhile is_space s)))"

text \<open>
  Where opening a path ends up after the symbolic links of its last part: the path of
  the entry that is read or written, or \<open>None\<close> for \<^verbatim>\<open>ELOOP\<close>. It runs on the fuel
  of \<open>follow\<close>.
\<close>

fun link_target :: "nat \<Rightarrow> fs \<Rightarrow> path \<Rightarrow> path option" where
  "link_target 0 fs p = None"
| "link_target (Suc k) fs p =
     (case map_of fs p of
        Some (Symlink t) \<Rightarrow> link_target k fs t
      | _ \<Rightarrow> Some p)"

text \<open>
  \<^verbatim>\<open>Path.write_bytes\<close>: a regular file is replaced, a missing one is created in an
  existing directory.
\<close>

definition write_bytes :: "env \<Rightarrow> fs \<Rightarrow> path \<Rightarrow> bytes \<Rightarrow> error + fs" where
  "write_bytes env fs p content =
     (case link_target 40 fs p of
        None \<Rightarrow> Inl OSError
      | Some q \<Rightarrow>
          (case map_of fs q of
             Some (RegFile old mtime readable) \<Rightarrow>
               Inr (AList.update q (RegFile content (time_now env) readable) fs)
           | Some Dir \<Rightarrow> Inl IsADirectoryError
           | Some n \<Rightarrow> Inl OSError
           | None \<Rightarrow>
               if is_dir fs (parent q) then Inr (fs @ [(q, RegFile content (time_now env) True)])
               else Inl FileNotFoundError))"

definition read_or_create_key :: "env \<Rightarrow> path \<Rightarrow> world \<Rightarrow> (error + bytes) \<times> world" where
  "read_or_create_key env key_file w =
     (if path_exists (filesystem w) key_file then
        (case read_bytes (filesystem w) key_file of
           Inl e \<Rightarrow> (Inl e, w)
         | Inr content \<Rightarrow> (Inr (strip content), w))
      else
        (let key = (if cryptography_installed env then fernet_generate_key env
                    else urlsafe_b64encode env (os_urandom env 32))
         in case ensure_directory (filesystem w) (parent key_file) of
              Inl e \<Rightarrow> (Inl e, w)
            | Inr fs1 \<Rightarrow>
                (case write_bytes env fs1 key_file key of
                   Inl e \<Rightarrow> (Inl e, w\<lparr>filesystem := fs1\<rparr>)
                 | Inr fs2 \<Rightarrow>
                     (Inr key,
                      print (''Wrote key file: '' @ str_path key_file) (w\<lparr>filesystem := fs2\<rparr>)))))"

definition encrypt_file ::
  "env \<Rightarrow> path \<Rightarrow> path \<Rightarrow> bytes \<Rightarrow> bool \<Rightarrow> world \<Rightarrow> (error + unit) \<times> world" where
  "encrypt_file env src dest key dry_run w =
     (if \<not> cryptography_installed env then
        (Inl (SystemExit 2),
         print (''Encryption requested but 'cryptography' is not installed.'' @ [CHR 0x0A] @
                ''Install with: pip install -r requirements.txt or pip install cryptography'') w)
      else
        (case ensure_directory (filesystem w) (parent dest) of
           Inl e \<Rightarrow> (Inl e, w)
         | Inr fs1 \<Rightarrow>
             (let w1 = print_action (''encrypt '' @ str_path src @ '' -> '' @ str_path dest) dry_run
                         (w\<lparr>filesystem := fs1\<rparr>)
              in if dry_run then (Inr (), w1)
                 else if \<not> fernet_valid_key env key then
                   (Inl (ValueError ''Fernet key must be 32 url-safe base64-encoded bytes.''), w1)
                 else
                   (case read_bytes (filesystem w1) src of
                      Inl e \<Rightarrow> (Inl e, w1)
                    | Inr content \<Rightarrow>
                        (case write_bytes env (filesystem w1) dest (fernet_encrypt env key content) of
                           Inl e \<Rightarrow> (Inl e, w1)
                         | Inr fs2 \<Rightarrow> (Inr (), w1\<lparr>filesystem := fs2\<rparr>))))))"

text \<open>\<^verbatim>\<open>Path.relative_to\<close> and \<^verbatim>\<open>Path.with_suffix\<close>.\<close>

definition relative_to :: "path \<Rightarrow> path \<Rightarrow> error + path" where
  "relative_to p base =
     (if take (length base) p = base then Inr (drop (length base) p)
      else Inl (ValueError ''path is not in the subpath of the other''))"

definition with_suffix :: "path \<Rightarrow> string \<Rightarrow> error + path" where
  "with_suffix p sfx =
     (if path_name p = [] then Inl (ValueError ''path has an empty name'')
      else if (sfx \<noteq> [] \<and> \<not> startswith sfx ''.'') \<or> sfx = ''.'' then
        Inl (ValueError ''Invalid suffix'')
      else Inr (slash (butlast p) (stem p @ sfx)))"

text \<open>The path \<^verbatim>\<open>output_dir / relative.with_suffix(relative.suffix + '.enc')\<close>.\<close>

definition encrypt_target :: "path \<Rightarrow> path \<Rightarrow> path \<Rightarrow> error + path" where
  "encrypt_target root_dir output_dir file_path =
     (case relative_to file_path root_dir of
        Inl e \<Rightarrow> Inl e
      | Inr relative \<Rightarrow>
          (case with_suffix relative (suffix relative @ ''.enc'') of
             Inl e \<Rightarrow> Inl e
           | Inr renamed \<Rightarrow> Inr (output_dir @ renamed)))"

fun encrypt_loop ::
  "env \<Rightarrow> path \<Rightarrow> path \<Rightarrow> bytes \<Rightarrow> bool \<Rightarrow> bool \<Rightarrow> path list \<Rightarrow> nat \<Rightarrow> world \<Rightarrow>
     (error + nat) \<times> world" where
  "encrypt_loop env root_dir output_dir key remove_originals dry_run [] n w = (Inr n, w)"
| "encrypt_loop env root_dir output_dir key remove_originals dry_run (file_path # files) n w =
     (if suffix file_path = ''.enc'' then
        encrypt_loop env root_dir output_dir key remove_originals dry_run files n w
      else
        (case encrypt_target root_dir output_dir file_path of
           Inl e \<Rightarrow> (Inl e, w)
         | Inr target_path \<Rightarrow>
             (case encrypt_file env file_path target_path key dry_run w of
                (Inl e, w') \<Rightarrow> (Inl e, w')
              | (Inr u, w1) \<Rightarrow>
                  if remove_originals then
                    (let w2 = print_action (''delete original '' @ str_path file_path) dry_run w1
                     in if \<not> dry_run then
                          (case unlink (filesystem w2) file_path of
                             Inr fs' \<Rightarrow>
                               encrypt_loop env root_dir output_dir key remove_originals dry_run
                                 files (n + 1) (w2\<lparr>filesystem := fs'\<rparr>)
                           | Inl exc \<Rightarrow>
                               if is_OSError exc then
                                 encrypt_loop env root_dir output_dir key remove_originals dry_run
                                   files (n + 1)
                                   (print (''Failed to delete '' @ str_path file_path @ '': '' @
                                           str_exc exc) w2)
                               else (Inl exc, w2))
                        else encrypt_loop env root_dir output_dir key remove_originals dry_run
                               files (n + 1) w2)
                  else encrypt_loop env root_dir output_dir key remove_originals dry_run
                         files (n + 1) w1)))"

definition encrypt_tree ::
  "env \<Rightarrow> path \<Rightarrow> path \<Rightarrow> path \<Rightarrow> bool \<Rightarrow> string list \<Rightarrow> bool \<Rightarrow> bool \<Rightarrow> world \<Rightarrow>
     (error + nat) \<times> world" where
  "encrypt_tree env root_dir output_dir key_file include_hidden exclude_globs remove_originals
       dry_run w =
     (case read_or_create_key env key_file w of
        (Inl e, w') \<Rightarrow> (Inl e, w')
      | (Inr key, w1) \<Rightarrow>
          (case encrypt_loop env root_dir output_dir key remove_originals dry_run
                  (iter_files env (filesystem w1) root_dir include_hidden exclude_globs) 0 w1 of
             (Inl e, w') \<Rightarrow> (Inl e, w')
           | (Inr n, w') \<Rightarrow>
               (Inr n,
                if n = 0 then
                  print ''No files encrypted (nothing matched or already encrypted).'' w'
                else w')))"

subsection \<open>main\<close>

text \<open>The namespace \<^verbatim>\<open>parse_args\<close> returns.\<close>

record args =
  arg_root :: path
  arg_include_hidden :: bool
  arg_exclude_glob :: "string list"
  arg_apply :: bool
  arg_dedupe :: "string option"
  arg_duplicates_dir :: "path option"
  arg_organize :: "string option"
  arg_organize_dir :: "path option"
  arg_encrypt :: bool
  arg_encryption_output_dir :: "path option"
  arg_key_file :: "path option"
  arg_remove_originals :: bool

definition or_default :: "path option \<Rightarrow> path \<Rightarrow> path" where
  "or_default given dflt = (case given of Some p \<Rightarrow> p | None \<Rightarrow> dflt)"

text \<open>The three blocks of \<^verbatim>\<open>main\<close>, each run when its option is given.\<close>

definition main_dedupe ::
  "env \<Rightarrow> args \<Rightarrow> path \<Rightarrow> path \<Rightarrow> world \<Rightarrow> (error + unit) \<times> world" where
  "main_dedupe env a root_dir duplicates_dir w =
     (case arg_dedupe a of
        None \<Rightarrow> (Inr (), w)
      | Some mode \<Rightarrow>
          (case (if mode = ''move'' then ensure_directory (filesystem w) duplicates_dir
                 else Inr (filesystem w)) of
             Inl e \<Rightarrow> (Inl e, w)
           | Inr fs1 \<Rightarrow>
               (case dedupe_action env root_dir mode duplicates_dir (arg_include_hidden a)
                       (arg_exclude_glob a) (\<not> arg_apply a) (w\<lparr>filesystem := fs1\<rparr>) of
                  (Inl e, w') \<Rightarrow> (Inl e, w')
                | (Inr (groups, ops), w') \<Rightarrow>
                    (Inr (),
                     print (''Dedupe: '' @ str_nat groups @ '' groups; '' @ str_nat ops @
                            '' files '' @
                            (if mode \<noteq> ''report'' then ''moved/deleted'' else ''not changed'') @
                            ''.'') w'))))"

definition main_organize ::
  "env \<Rightarrow> args \<Rightarrow> path \<Rightarrow> path \<Rightarrow> world \<Rightarrow> (error + unit) \<times> world" where
  "main_organize env a root_dir organize_dir w =
     (case arg_organize a of
        None \<Rightarrow> (Inr (), w)
      | Some organize_mode \<Rightarrow>
          (case ensure_directory (filesystem w) organize_dir of
             Inl e \<Rightarrow> (Inl e, w)
           | Inr fs1 \<Rightarrow>
               (case organize_files env root_dir organize_mode organize_dir (arg_include_hidden a)
                       (arg_exclude_glob a) (\<not> arg_apply a) (w\<lparr>filesystem := fs1\<rparr>) of
                  (Inl e, w') \<Rightarrow> (Inl e, w')
                | (Inr moved, w') \<Rightarrow>
                    (Inr (), print (''Organize: '' @ str_nat moved @ '' files moved.'') w'))))"

definition main_encrypt ::
  "env \<Rightarrow> args \<Rightarrow> path \<Rightarrow> path \<Rightarrow> path \<Rightarrow> world \<Rightarrow> (error + unit) \<times> world" where
  "main_encrypt env a root_dir encryption_output_dir key_file w =
     (if \<not> arg_encrypt a then (Inr (), w)
      else
        (case ensure_directory (filesystem w) encryption_output_dir of
           Inl e \<Rightarrow> (Inl e, w)
         | Inr fs1 \<Rightarrow>
             (case encrypt_tree env root_dir encryption_output_dir key_file (arg_include_hidden a)
                     (arg_exclude_glob a) (arg_remove_originals a) (\<not> arg_apply a)
                     (w\<lparr>filesystem := fs1\<rparr>) of
                (Inl e, w') \<Rightarrow> (Inl e, w')
              | (Inr n, w') \<Rightarrow>
                  (Inr (),
                   print (''Encrypt: '' @ str_nat n @ '' files written to '' @
                          str_path encryption_output_dir @ ''.'') w'))))"

text \<open>\<^verbatim>\<open>main\<close>: the exit code, or the exception that ends the process.\<close>

definition main :: "env \<Rightarrow> args \<Rightarrow> world \<Rightarrow> (error + nat) \<times> world" where
  "main env a w =
     (let root_dir = resolve (filesystem w) (arg_root a);
          dry_run = \<not> arg_apply a
      in if \<not> path_exists (filesystem w) root_dir \<or> \<not> is_dir (filesystem w) root_dir then
           (Inr 2,
            print (''Root directory does not exist or is not a directory: '' @ str_path root_dir) w)
         else
           (let duplicates_dir =
                  resolve (filesystem w) (or_default (arg_duplicates_dir a) (slash root_dir ''_duplicates''));
                organize_dir =
                  resolve (filesystem w) (or_default (arg_organize_dir a) (slash root_dir ''_organized''));
                encryption_output_dir =
                  resolve (filesystem w)
                    (or_default (arg_encryption_output_dir a) (slash root_dir ''_encrypted''));
                key_file =
                  resolve (filesystem w) (or_default (arg_key_file a) (slash root_dir ''_key.fernet''));
                any_work = (arg_dedupe a \<noteq> None \<or> arg_organize a \<noteq> None \<or> arg_encrypt a)
            in case main_dedupe env a root_dir duplicates_dir w of
                 (Inl e, w') \<Rightarrow> (Inl e, w')
               | (Inr u, w1) \<Rightarrow>
                   (case main_organize env a root_dir organize_dir w1 of
                      (Inl e, w') \<Rightarrow> (Inl e, w')
                    | (Inr u, w2) \<Rightarrow>
                        (case main_encrypt env a root_dir encryption_output_dir key_file w2 of
                           (Inl e, w') \<Rightarrow> (Inl e, w')
                         | (Inr u, w3) \<Rightarrow>
                             if \<not> any_work then
                               (Inr 0,
                                print ''Nothing to do. Pass one or more of --dedupe, --organize, --encrypt.'' w3)
                             else if dry_run then
                               (Inr 0, print ''Dry-run complete. Re-run with --apply to make changes.'' w3)
                             else (Inr 0, print ''Done.'' w3)))))"

subsection \<open>Example worlds\<close>

text \<open>
  A directory \<open>/d\<close> that already holds \<open>x.txt\<close> and \<open>x__1.txt\<close>, and a file
  \<open>/s.txt\<close> to be moved.
\<close>

definition fs_taken :: fs where
  "fs_taken =
     [([''/''], Dir), ([''/'', ''d''], Dir),
      ([''/'', ''d'', ''x.txt''], RegFile ''old'' 0 True),
      ([''/'', ''d'', ''x__1.txt''], RegFile ''older'' 0 True),
      ([''/'', ''s.txt''], RegFile ''new'' 0 True)]"

definition world_taken :: world where
  "world_taken = \<lparr>filesystem = fs_taken, stdout = [], hash_calls = []\<rparr>"

text \<open>
  Stand-ins for the library functions: patterns match only themselves, the digest of a
  byte string is the byte string, every file dates from January 2024, and the
  \<^verbatim>\<open>cryptography\<close> package is installed.
\<close>

definition env_demo :: env where
  "env_demo = \<lparr>fnmatch_fn = (\<lambda>nm pat. nm = pat), sha256_hexdigest = (\<lambda>b. b),
     time_localtime = (\<lambda>t. (2024, 1)), cryptography_installed = True,
     fernet_generate_key = ''generated-key'', os_urandom = (\<lambda>n. replicate n (CHR ''r'')),
     urlsafe_b64encode = (\<lambda>b. b), fernet_valid_key = (\<lambda>k. True),
     fernet_encrypt = (\<lambda>k d. ''enc:'' @ d), time_now = 0\<rparr>"

text \<open>
  A root \<open>/r\<close> with an unreadable \<open>a.txt\<close> and a readable \<open>b.txt\<close>, and a key file
  \<open>/k\<close> outside it.
\<close>

definition fs_unreadable :: fs where
  "fs_unreadable =
     [([''/''], Dir), ([''/'', ''r''], Dir), ([''/'', ''k''], RegFile ''key'' 0 True),
      ([''/'', ''r'', ''a.txt''], RegFile ''aaa'' 0 False),
      ([''/'', ''r'', ''b.txt''], RegFile ''bbb'' 0 True)]"

definition world_unreadable :: world where
  "world_unreadable = \<lparr>filesystem = fs_unreadable, stdout = [], hash_calls = []\<rparr>"

text \<open>\<^verbatim>\<open>--root /r --organize ext --encrypt --remove-originals\<close>, without \<^verbatim>\<open>--apply\<close>.\<close>

definition args_preview :: args where
  "args_preview = \<lparr>arg_root = [''/'', ''r''], arg_include_hidden = False, arg_exclude_glob = [],
     arg_apply = False, arg_dedupe = None, arg_duplicates_dir = None, arg_organize = Some ''ext'',
     arg_organize_dir = None, arg_encrypt = True, arg_encryption_output_dir = None,
     arg_key_file = None, arg_remove_originals = True\<rparr>"

text \<open>
  A root \<open>/r\<close> whose directories \<open>a\<close> and \<open>b\<close> each hold a file named \<open>foo.\<close>
  (the name ends in a dot); \<open>_organized\<close> is there already and is listed first.
\<close>

definition fs_dots :: fs where
  "fs_dots =
     [([''/''], Dir), ([''/'', ''r''], Dir), ([''/'', ''r'', ''_organized''], Dir),
      ([''/'', ''r'', ''a''], Dir), ([''/'', ''r'', ''b''], Dir),
      ([''/'', ''r'', ''a'', ''foo.''], RegFile ''one'' 0 True),
      ([''/'', ''r'', ''b'', ''foo.''], RegFile ''two'' 0 True)]"

definition world_dots :: world where
  "world_dots = \<lparr>filesystem = fs_dots, stdout = [], hash_calls = []\<rparr>"

text \<open>The same tree after \<^verbatim>\<open>--organize ext --apply\<close> has run once.\<close>

definition fs_dots_organized :: fs where
  "fs_dots_organized =
     [([''/''], Dir), ([''/'', ''r''], Dir), ([''/'', ''r'', ''_organized''], Dir),
      ([''/'', ''r'', ''a''], Dir), ([''/'', ''r'', ''b''], Dir),
      ([''/'', ''r'', ''_organized'', ''noext''], Dir),
      ([''/'', ''r'', ''_organized'', ''noext'', ''foo.''], RegFile ''one'' 0 True),
      ([''/'', ''r'', ''_organized'', ''noext'', ''foo.__1''], RegFile ''two'' 0 True)]"

text \<open>
  A root \<open>/r\<close> where \<open>b/y.md\<close> is a symbolic link to
  \<open>/r/_organized/txt/x.txt\<close>, which does not exist yet, and \<open>a/x.txt\<close> is a regular
  file; \<open>_organized\<close> is listed first, then \<open>b\<close>, then \<open>a\<close>.
\<close>

definition fs_late_link :: fs where
  "fs_late_link =
     [([''/''], Dir), ([''/'', ''r''], Dir), ([''/'', ''r'', ''_organized''], Dir),
      ([''/'', ''r'', ''b''], Dir), ([''/'', ''r'', ''a''], Dir),
      ([''/'', ''r'', ''b'', ''y.md''], Symlink [''/'', ''r'', ''_organized'', ''txt'', ''x.txt'']),
      ([''/'', ''r'', ''a'', ''x.txt''], RegFile ''one'' 0 True)]"

definition fs_late_link_organized :: fs where
  "fs_late_link_organized =
     [([''/''], Dir), ([''/'', ''r''], Dir), ([''/'', ''r'', ''_organized''], Dir),
      ([''/'', ''r'', ''b''], Dir), ([''/'', ''r'', ''a''], Dir),
      ([''/'', ''r'', ''b'', ''y.md''], Symlink [''/'', ''r'', ''_organized'', ''txt'', ''x.txt'']),
      ([''/'', ''r'', ''_organized'', ''txt''], Dir),
      ([''/'', ''r'', ''_organized'', ''txt'', ''x.txt''], RegFile ''one'' 0 True)]"

text \<open>
  A root \<open>/r\<close> that holds a symbolic link to a regular file outside it, a symbolic link
  to a directory, a dangling link, a FIFO, a hidden directory and a plain subdirectory.
\<close>

definition fs_links :: fs where
  "fs_links =
     [([''/''], Dir), ([''/'', ''r''], Dir), ([''/'', ''secret.txt''], RegFile ''s'' 0 True),
      ([''/'', ''r'', ''link.txt''], Symlink [''/'', ''secret.txt'']),
      ([''/'', ''r'', ''dirlink''], Symlink [''/'']),
      ([''/'', ''r'', ''dangling''], Symlink [''/'', ''nowhere'']),
      ([''/'', ''r'', ''fifo''], Special),
      ([''/'', ''r'', ''sub''], Dir),
      ([''/'', ''r'', ''.git''], Dir),
      ([''/'', ''r'', ''.git'', ''config''], RegFile ''c'' 0 True),
      ([''/'', ''r'', ''sub'', ''plain''], RegFile ''p'' 0 True)]"

text \<open>
  Two listings of one tree: \<open>a.txt\<close> and \<open>b.txt\<close> have the same ten bytes, \<open>c.txt\<close>
  has ten other bytes, \<open>d.txt\<close> has twenty. The listings differ in the order of
  \<open>a.txt\<close> and \<open>b.txt\<close> only.
\<close>

definition fs_dups_ab :: fs where
  "fs_dups_ab =
     [([''/''], Dir), ([''/'', ''r''], Dir),
      ([''/'', ''r'', ''a.txt''], RegFile ''0123456789'' 0 True),
      ([''/'', ''r'', ''b.txt''], RegFile ''0123456789'' 0 True),
      ([''/'', ''r'', ''c.txt''], RegFile ''abcdefghij'' 0 True),
      ([''/'', ''r'', ''d.txt''], RegFile ''01234567890123456789'' 0 True)]"


definition world_of :: "fs \<Rightarrow> world" where
  "world_of files = \<lparr>filesystem = files, stdout = [], hash_calls = []\<rparr>"

section \<open>Properties\<close>

subsection \<open>Evaluation\<close>

lemma follow_numeral [simp]:
  "follow (numeral k) fs p =
     (case map_of fs p of Some (Symlink t) \<Rightarrow> follow (pred_numeral k) fs t | r \<Rightarrow> r)"
  by (simp add: numeral_eq_Suc)

lemma link_target_numeral [simp]:
  "link_target (numeral k) fs p =
     (case map_of fs p of Some (Symlink t) \<Rightarrow> link_target (pred_numeral k) fs t | _ \<Rightarrow> Some p)"
  by (simp add: numeral_eq_Suc)

lemma resolve_n_numeral [simp]:
  "resolve_n (numeral k) fs p =
     (case map_of fs p of Some (Symlink t) \<Rightarrow> resolve_n (pred_numeral k) fs t | _ \<Rightarrow> p)"
  by (simp add: numeral_eq_Suc)



subsection \<open>safe\_move\<close>


lemma str_nat_nonempty: "str_nat n \<noteq> []"
  by (subst str_nat.simps) simp
















subsection \<open>Dry runs\<close>

text \<open>
  Claim C2 fails on the code. \<^verbatim>\<open>safe_move\<close> and \<^verbatim>\<open>encrypt_file\<close> call
  \<^verbatim>\<open>ensure_directory\<close> before they look at \<open>dry_run\<close>, and \<^verbatim>\<open>main\<close> makes the output
  directories whatever the mode. A dry run of \<^verbatim>\<open>safe_move\<close> towards \<open>/e/f/x.txt\<close>
  creates \<open>/e\<close> and \<open>/e/f\<close>; a dry run of \<^verbatim>\<open>encrypt_file\<close> towards
  \<open>/out/s.txt.enc\<close> creates \<open>/out\<close>; and \<^verbatim>\<open>main\<close> without \<^verbatim>\<open>--apply\<close> leaves
  three new directories and a key file behind while printing that the dry run is
  complete. The printed destinations are the resolved ones.
\<close>

theorem dry_run_creates_directories:
  "safe_move [''/'', ''s.txt''] [''/'', ''e'', ''f'', ''x.txt''] True world_taken =
     (Inr (), \<lparr>filesystem = fs_taken @ [([''/'', ''e''], Dir), ([''/'', ''e'', ''f''], Dir)],
        stdout = [''[DRY-RUN] move /s.txt -> /e/f/x.txt''], hash_calls = []\<rparr>) \<and>
   encrypt_file env_demo [''/'', ''s.txt''] [''/'', ''out'', ''s.txt.enc''] ''key'' True world_taken =
     (Inr (), \<lparr>filesystem = fs_taken @ [([''/'', ''out''], Dir)],
        stdout = [''[DRY-RUN] encrypt /s.txt -> /out/s.txt.enc''], hash_calls = []\<rparr>) \<and>
   main env_demo args_preview world_unreadable =
     (Inr 0, \<lparr>filesystem = fs_unreadable @
         [([''/'', ''r'', ''_organized''], Dir), ([''/'', ''r'', ''_organized'', ''txt''], Dir),
          ([''/'', ''r'', ''_encrypted''], Dir),
          ([''/'', ''r'', ''_key.fernet''], RegFile ''generated-key'' 0 True)],
        stdout =
          [''[DRY-RUN] move /r/a.txt -> /r/_organized/txt/a.txt'',
           ''[DRY-RUN] move /r/b.txt -> /r/_organized/txt/b.txt'',
           ''Organize: 2 files moved.'', ''Wrote key file: /r/_key.fernet'',
           ''[DRY-RUN] encrypt /r/a.txt -> /r/_encrypted/a.txt.enc'',
           ''[DRY-RUN] delete original /r/a.txt'',
           ''[DRY-RUN] encrypt /r/b.txt -> /r/_encrypted/b.txt.enc'',
           ''[DRY-RUN] delete original /r/b.txt'',
           ''[DRY-RUN] encrypt /r/_key.fernet -> /r/_encrypted/_key.fernet.enc'',
           ''[DRY-RUN] delete original /r/_key.fernet'',
           ''Encrypt: 3 files written to /r/_encrypted.'',
           ''Dry-run complete. Re-run with --apply to make changes.''],
        hash_calls = []\<rparr>)"
  by code_simp

theorem dry_run_creates_directories_witness:
  "filesystem (snd (safe_move [''/'', ''s.txt''] [''/'', ''e'', ''f'', ''x.txt''] True world_taken)) \<noteq>
     filesystem world_taken \<and>
   filesystem (snd (main env_demo args_preview world_unreadable)) \<noteq> filesystem world_unreadable"
  using dry_run_creates_directories
  by (simp add: world_taken_def world_unreadable_def)

subsection \<open>encrypt\_tree\<close>

text \<open>
  Claim C4 fails on the code. \<^verbatim>\<open>encrypt_file\<close> reads the source with no
  \<^verbatim>\<open>try\<close> around it and \<^verbatim>\<open>encrypt_tree\<close> catches nothing but a failed delete. With
  an unreadable \<open>/r/a.txt\<close> listed before a readable \<open>/r/b.txt\<close>, an applied run
  ends with \<^verbatim>\<open>PermissionError\<close> at \<open>a.txt\<close>: \<open>b.txt\<close> is never encrypted and nothing
  about the failure is printed.
\<close>

theorem encrypt_tree_aborts_on_read_error:
  "encrypt_tree env_demo [''/'', ''r''] [''/'', ''out''] [''/'', ''k''] False [] False False
     world_unreadable =
   (Inl PermissionError,
    \<lparr>filesystem = fs_unreadable @ [([''/'', ''out''], Dir)],
      stdout = [''encrypt /r/a.txt -> /out/a.txt.enc''], hash_calls = []\<rparr>)"
  by code_simp

subsection \<open>organize\_files\<close>

text \<open>
  Claim C6 fails on the code. The name of a disambiguated file is the stem, two
  underscores, the counter and the suffix; for a name that ends in a dot the suffix is
  empty and the stem is the whole name, so \<open>foo.\<close> becomes \<open>foo.__1\<close>, whose suffix is
  \<open>.__1\<close>. The first applied run moves both files named \<open>foo.\<close> into
  \<open>_organized/noext\<close>; the second run moves \<open>foo.__1\<close> on to \<open>_organized/__1\<close> and
  counts one move. In both runs every directory has been listed before anything is created
  in it, so reading the walk at the start and reading it directory by directory give the
  same files.

  A second tree shows the same without any such name: \<open>b/y.md\<close> is a link whose target
  appears only when the first run moves \<open>a/x.txt\<close>; the first run passes it over as
  dangling, and the second run moves it.
\<close>

theorem organize_twice_moves_again:
  "organize_files env_demo [''/'', ''r''] ''ext'' [''/'', ''r'', ''_organized''] False [] False
     world_dots =
     (Inr 2, \<lparr>filesystem = fs_dots_organized,
        stdout = [''move /r/a/foo. -> /r/_organized/noext/foo.'',
                  ''move /r/b/foo. -> /r/_organized/noext/foo.__1''],
        hash_calls = []\<rparr>) \<and>
   organize_files env_demo [''/'', ''r''] ''ext'' [''/'', ''r'', ''_organized''] False [] False
     (world_of fs_dots_organized) =
     (Inr 1, \<lparr>filesystem =
         [([''/''], Dir), ([''/'', ''r''], Dir), ([''/'', ''r'', ''_organized''], Dir),
          ([''/'', ''r'', ''a''], Dir), ([''/'', ''r'', ''b''], Dir),
          ([''/'', ''r'', ''_organized'', ''noext''], Dir),
          ([''/'', ''r'', ''_organized'', ''noext'', ''foo.''], RegFile ''one'' 0 True),
          ([''/'', ''r'', ''_organized'', ''__1''], Dir),
          ([''/'', ''r'', ''_organized'', ''__1'', ''foo.__1''], RegFile ''two'' 0 True)],
        stdout = [''move /r/_organized/noext/foo.__1 -> /r/_organized/__1/foo.__1''],
        hash_calls = []\<rparr>) \<and>
   organize_files env_demo [''/'', ''r''] ''ext'' [''/'', ''r'', ''_organized''] False [] False
     (world_of fs_late_link) =
     (Inr 1, \<lparr>filesystem = fs_late_link_organized,
        stdout = [''move /r/a/x.txt -> /r/_organized/txt/x.txt''], hash_calls = []\<rparr>) \<and>
   organize_files env_demo [''/'', ''r''] ''ext'' [''/'', ''r'', ''_organized''] False [] False
     (world_of fs_late_link_organized) =
     (Inr 1, \<lparr>filesystem =
         [([''/''], Dir), ([''/'', ''r''], Dir), ([''/'', ''r'', ''_organized''], Dir),
          ([''/'', ''r'', ''b''], Dir), ([''/'', ''r'', ''a''], Dir),
          ([''/'', ''r'', ''_organized'', ''txt''], Dir),
          ([''/'', ''r'', ''_organized'', ''txt'', ''x.txt''], RegFile ''one'' 0 True),
          ([''/'', ''r'', ''_organized'', ''md''], Dir),
          ([''/'', ''r'', ''_organized'', ''md'', ''y.md''],
           Symlink [''/'', ''r'', ''_organized'', ''txt'', ''x.txt''])],
        stdout = [''move /r/b/y.md -> /r/_organized/md/y.md''], hash_calls = []\<rparr>)"
  by code_simp

subsection \<open>iter\_files\<close>

lemma is_dir_not_link:
  assumes "is_dir fs p" and "\<not> islink fs p"
  shows "map_of fs p = Some Dir"
proof -
  from assms(1) have "follow 40 fs p = Some Dir"
    by (auto simp: is_dir_def stat_node_def split: option.splits node.splits)
  with assms(2) show ?thesis
    by (auto simp: islink_def split: option.splits node.splits)
qed

lemma os_walk_visits:
  "(d, dns, fns) \<in> set (os_walk keep fs root_dir) \<Longrightarrow>
     take (length root_dir) d = root_dir \<and>
     (\<forall>k. length root_dir < k \<and> k \<le> length d \<longrightarrow> map_of fs (take k d) = Some Dir) \<and>
     set fns \<subseteq> set (scandir fs d) \<and>
     (\<forall>nm \<in> set fns. \<not> is_dir fs (slash d nm))"
proof (induction keep fs root_dir rule: os_walk.induct)
  case (1 keep fs topdir)
  from "1.prems" have dir: "is_dir fs topdir"
    by (subst (asm) os_walk.simps) (auto split: if_splits)
  from "1.prems" dir consider
      (here) "d = topdir" "fns = filter (\<lambda>nm. \<not> is_dir fs (slash topdir nm)) (scandir fs topdir)"
    | (below) nm where "nm \<in> set (scandir fs topdir)" "keep nm" "is_dir fs (slash topdir nm)"
        "\<not> islink fs (slash topdir nm)" "(d, dns, fns) \<in> set (os_walk keep fs (slash topdir nm))"
    by (subst (asm) os_walk.simps) auto
  then show ?case
  proof cases
    case here
    then show ?thesis by auto
  next
    case below
    then have nmset: "nm \<in> set (filter (\<lambda>nm. \<not> islink fs (slash topdir nm))
         (filter keep (filter (\<lambda>nm. is_dir fs (slash topdir nm)) (scandir fs topdir))))"
      by simp
    note IH = "1.IH" [OF _ nmset below(5)]
    have ih: "take (length (slash topdir nm)) d = slash topdir nm"
      "\<forall>k. length (slash topdir nm) < k \<and> k \<le> length d \<longrightarrow> map_of fs (take k d) = Some Dir"
      "set fns \<subseteq> set (scandir fs d)" "\<forall>nm \<in> set fns. \<not> is_dir fs (slash d nm)"
      using IH dir by auto
    have real: "map_of fs (slash topdir nm) = Some Dir"
      using below(3,4) by (rule is_dir_not_link)
    have t1: "take (length topdir) d = topdir"
    proof -
      have "take (length topdir) (take (length (slash topdir nm)) d) = take (length topdir) (slash topdir nm)"
        by (simp only: ih(1))
      then show ?thesis by (simp add: slash_def min_def)
    qed
    have t2: "map_of fs (take k d) = Some Dir" if "length topdir < k" "k \<le> length d" for k
    proof (cases "k = Suc (length topdir)")
      case True
      then have "take k d = slash topdir nm" using ih(1) by (simp add: slash_def)
      then show ?thesis using real by simp
    next
      case False
      with that have "length (slash topdir nm) < k" by (simp add: slash_def)
      then show ?thesis using ih(2) that by blast
    qed
    show ?thesis using t1 t2 ih(3,4) by blast
  qed
qed

lemma is_file_entry:
  assumes "is_file fs p"
  shows "(\<exists>c m r. stat_node fs p = Some (RegFile c m r)) \<and>
         ((\<exists>c m r. map_of fs p = Some (RegFile c m r)) \<or>
          (\<exists>t. map_of fs p = Some (Symlink t) \<and> is_file fs p))"
proof -
  from assms obtain c m r where st: "stat_node fs p = Some (RegFile c m r)"
    by (auto simp: is_file_def split: option.splits node.splits)
  then have "follow (Suc 39) fs p = Some (RegFile c m r)"
    by (simp add: stat_node_def)
  then have "map_of fs p = Some (RegFile c m r) \<or> (\<exists>t. map_of fs p = Some (Symlink t))"
    by (auto split: option.splits node.splits)
  with st assms show ?thesis by auto
qed

text \<open>
  Claim C5, amended. Every path the traversal yields satisfies \<^verbatim>\<open>is_file\<close>, which
  follows symbolic links: \<^verbatim>\<open>stat\<close> finds a regular file there, so the entry is a
  regular file or a symbolic link that resolves to one, and never a directory, a special
  file, a dangling link or a link to a directory. The path lies under the root, and
  every directory between the root and the path is a directory itself, not a link to
  one: the walk does not go down through symbolic links.
\<close>

theorem iter_files_yields_is_file:
  assumes "p \<in> set (iter_files env fs root_dir include_hidden exclude_globs)"
  shows "is_file fs p \<and> \<not> is_dir fs p \<and>
         (\<exists>c m r. stat_node fs p = Some (RegFile c m r)) \<and>
         ((\<exists>c m r. map_of fs p = Some (RegFile c m r)) \<or> (\<exists>t. map_of fs p = Some (Symlink t))) \<and>
         \<not> should_skip env p include_hidden exclude_globs \<and>
         length root_dir < length p \<and> take (length root_dir) p = root_dir \<and>
         (\<forall>k. length root_dir < k \<and> k < length p \<longrightarrow> map_of fs (take k p) = Some Dir)"
proof -
  from assms obtain d dns fns nm where
    tr: "(d, dns, fns) \<in> set (os_walk (\<lambda>d. include_hidden \<or> \<not> startswith d ''.'') fs root_dir)"
    and nm: "nm \<in> set fns" and p: "p = slash d nm"
    and isf: "is_file fs p" and skip: "\<not> should_skip env p include_hidden exclude_globs"
    by (auto simp: iter_files_def)
  from os_walk_visits [OF tr] have
    v1: "take (length root_dir) d = root_dir" and
    v2: "\<forall>k. length root_dir < k \<and> k \<le> length d \<longrightarrow> map_of fs (take k d) = Some Dir" and
    v4: "\<forall>nm \<in> set fns. \<not> is_dir fs (slash d nm)"
    by auto
  have len: "length root_dir \<le> length d"
    using v1 by (metis length_take min.cobounded1)
  have a: "\<not> is_dir fs p" using v4 nm p by auto
  have b: "length root_dir < length p" using len p by (simp add: slash_def)
  have c: "take (length root_dir) p = root_dir" using v1 len p by (simp add: slash_def)
  have d: "\<forall>k. length root_dir < k \<and> k < length p \<longrightarrow> map_of fs (take k p) = Some Dir"
    using v2 p by (auto simp: slash_def)
  from is_file_entry [OF isf] a b c d isf skip show ?thesis by blast
qed

theorem iter_files_yields_is_file_witness:
  "[''/'', ''r'', ''sub'', ''plain''] \<in> set (iter_files env_demo fs_links [''/'', ''r''] False []) \<and>
   is_file fs_links [''/'', ''r'', ''sub'', ''plain''] \<and>
   map_of fs_links (take 3 [''/'', ''r'', ''sub'', ''plain'']) = Some Dir"
proof -
  have m: "[''/'', ''r'', ''sub'', ''plain''] \<in> set (iter_files env_demo fs_links [''/'', ''r''] False [])"
    by code_simp
  from iter_files_yields_is_file [OF m]
  have f: "is_file fs_links [''/'', ''r'', ''sub'', ''plain'']"
    and d: "\<forall>k. length [''/'', ''r''] < k \<and> k < length [''/'', ''r'', ''sub'', ''plain''] \<longrightarrow>
       map_of fs_links (take k [''/'', ''r'', ''sub'', ''plain'']) = Some Dir"
    by blast+
  from d [rule_format, of 3]
  have "map_of fs_links (take 3 [''/'', ''r'', ''sub'', ''plain'']) = Some Dir"
    by simp
  with m f show ?thesis by simp
qed

text \<open>
  Claim C5 as stated fails: \<open>/r/link.txt\<close> is a symbolic link (to a regular file
  outside the root) and the traversal yields it.
\<close>

theorem iter_files_yields_symlink:
  "[''/'', ''r'', ''link.txt''] \<in> set (iter_files env_demo fs_links [''/'', ''r''] False []) \<and>
   map_of fs_links [''/'', ''r'', ''link.txt''] = Some (Symlink [''/'', ''secret.txt''])"
  by code_simp

subsection \<open>dedupe\_action: the member that is kept\<close>

lemma hash_chunks_whole [code]:
  "hash_chunks chunk_size content hasher = (if chunk_size = 0 then hasher else hasher @ content)"
proof (induction chunk_size content hasher rule: hash_chunks.induct)
  case (1 chunk_size remaining hasher)
  show ?case
  proof (cases "take chunk_size remaining = []")
    case True
    then show ?thesis
      by (subst hash_chunks.simps) (auto simp: Let_def)
  next
    case False
    then have "chunk_size \<noteq> 0" by auto
    with 1 [OF refl False] False show ?thesis
      by (subst hash_chunks.simps) (simp add: Let_def)
  qed
qed

lemma compute_file_hash_whole [code]:
  "compute_file_hash env file_path w =
     (let w1 = w\<lparr>hash_calls := hash_calls w @ [file_path]\<rparr>
      in case read_bytes (filesystem w1) file_path of
           Inl e \<Rightarrow> (Inl e, w1)
         | Inr content \<Rightarrow> (Inr (sha256_hexdigest env content), w1))"
  by (simp add: compute_file_hash_def hash_chunks_whole Let_def split: sum.splits)




lemma dedupe_others_report:
  "dedupe_others ''report'' duplicates_dir dry_run others n w =
     (Inr n, w\<lparr>stdout := stdout w @ map (\<lambda>p. ''[DRY-RUN] duplicate: '' @ str_path p) others\<rparr>)"
  by (induction others arbitrary: w) (simp_all add: print_action_def print_def)








subsection \<open>find\_duplicates and report mode\<close>

lemma read_bytes_OSError: "read_bytes fs p = Inl e \<Longrightarrow> is_OSError e"
  by (auto simp: read_bytes_def split: option.splits node.splits if_splits)

lemma compute_file_hash_effect:
  "\<exists>r. compute_file_hash env p w = (r, w\<lparr>hash_calls := hash_calls w @ [p]\<rparr>) \<and>
       (\<forall>e. r = Inl e \<longrightarrow> is_OSError e)"
  by (auto simp: compute_file_hash_def Let_def split: sum.splits dest: read_bytes_OSError)

lemma hash_paths_effect:
  "\<exists>h'. hash_paths env paths h w = (Inr h', w\<lparr>hash_calls := hash_calls w @ paths\<rparr>)"
proof (induction paths arbitrary: h w)
  case Nil
  show ?case by simp
next
  case (Cons p paths)
  from compute_file_hash_effect [of env p w] obtain r where
    r: "compute_file_hash env p w = (r, w\<lparr>hash_calls := hash_calls w @ [p]\<rparr>)"
    and os: "\<forall>e. r = Inl e \<longrightarrow> is_OSError e"
    by blast
  show ?case
  proof (cases r)
    case (Inl e)
    with os have "is_OSError e" by simp
    with Inl r Cons.IH [of h "w\<lparr>hash_calls := hash_calls w @ [p]\<rparr>"] show ?thesis
      by auto
  next
    case (Inr digest)
    with r Cons.IH [of "setdefault_append digest p h" "w\<lparr>hash_calls := hash_calls w @ [p]\<rparr>"]
    show ?thesis by auto
  qed
qed

lemma hash_buckets_effect:
  "\<exists>h'. hash_buckets env buckets h w =
     (Inr h', w\<lparr>hash_calls := hash_calls w @
        concat (map snd (filter (\<lambda>(sz, ps). \<not> length ps < 2) buckets))\<rparr>)"
proof (induction buckets arbitrary: h w)
  case Nil
  show ?case by simp
next
  case (Cons b buckets)
  obtain sz paths where b: "b = (sz, paths)" by (cases b)
  show ?case
  proof (cases "length paths < 2")
    case True
    with b Cons.IH [of h w] show ?thesis by auto
  next
    case False
    from hash_paths_effect [of env paths h w] obtain h1 where
      h1: "hash_paths env paths h w = (Inr h1, w\<lparr>hash_calls := hash_calls w @ paths\<rparr>)"
      by blast
    with b False Cons.IH [of h1 "w\<lparr>hash_calls := hash_calls w @ paths\<rparr>"] show ?thesis
      by auto
  qed
qed

lemma find_duplicates_effect:
  "\<exists>dups. find_duplicates env root_dir include_hidden exclude_globs w =
     (Inr dups, w\<lparr>hash_calls := hash_calls w @
        concat (map snd (filter (\<lambda>(sz, ps). \<not> length ps < 2)
          (group_files_by_size (filesystem w)
             (iter_files env (filesystem w) root_dir include_hidden exclude_globs))))\<rparr>) \<and>
     (\<forall>(h, ps)\<in>set dups. 2 \<le> length ps)"
proof -
  let ?b = "group_files_by_size (filesystem w)
             (iter_files env (filesystem w) root_dir include_hidden exclude_globs)"
  from hash_buckets_effect [of env ?b "[]" w] obtain h' where
    "hash_buckets env ?b [] w =
     (Inr h', w\<lparr>hash_calls := hash_calls w @
        concat (map snd (filter (\<lambda>(sz, ps). \<not> length ps < 2) ?b))\<rparr>)"
    by blast
  then show ?thesis
    by (auto simp: find_duplicates_def Let_def)
qed

lemma map_of_setdefault_append:
  "map_of (setdefault_append k v d) =
     (map_of d)(k \<mapsto> (case map_of d k of None \<Rightarrow> [v] | Some vs \<Rightarrow> vs @ [v]))"
  by (induction d) (auto simp: fun_eq_iff)

lemma keys_setdefault_append:
  "fst ` set (setdefault_append k v d) = insert k (fst ` set d)"
  by (induction d) force+

lemma distinct_setdefault_append:
  "distinct (map fst d) \<Longrightarrow> distinct (map fst (setdefault_append k v d))"
  by (induction d) (auto simp: keys_setdefault_append)

lemma group_files_by_size_buckets:
  "distinct (map fst (group_files_by_size fs files)) \<and>
   (\<forall>sz. map_of (group_files_by_size fs files) sz =
      (if filter (\<lambda>q. st_size fs q = Some sz) files = [] then None
       else Some (filter (\<lambda>q. st_size fs q = Some sz) files)))"
proof (induction files rule: rev_induct)
  case Nil
  show ?case by (simp add: group_files_by_size_def)
next
  case (snoc f files)
  let ?d = "group_files_by_size fs files"
  show ?case
  proof (cases "st_size fs f")
    case None
    then have "group_files_by_size fs (files @ [f]) = ?d"
      by (simp add: group_files_by_size_def)
    with snoc None show ?thesis by simp
  next
    case (Some s)
    then have eq: "group_files_by_size fs (files @ [f]) = setdefault_append s f ?d"
      by (simp add: group_files_by_size_def)
    have "distinct (map fst (setdefault_append s f ?d))"
      using snoc by (simp add: distinct_setdefault_append)
    moreover have "map_of (setdefault_append s f ?d) sz =
      (if filter (\<lambda>q. st_size fs q = Some sz) (files @ [f]) = [] then None
       else Some (filter (\<lambda>q. st_size fs q = Some sz) (files @ [f])))" for sz
      using snoc Some by (simp add: map_of_setdefault_append)
    ultimately show ?thesis by (simp only: eq) blast
  qed
qed

lemma bucket_members:
  assumes "(sz, ps) \<in> set (group_files_by_size fs files)"
  shows "ps = filter (\<lambda>q. st_size fs q = Some sz) files"
proof -
  from group_files_by_size_buckets [of fs files]
  have d: "distinct (map fst (group_files_by_size fs files))"
    and m: "map_of (group_files_by_size fs files) sz =
      (if filter (\<lambda>q. st_size fs q = Some sz) files = [] then None
       else Some (filter (\<lambda>q. st_size fs q = Some sz) files))"
    by blast+
  from d assms have "map_of (group_files_by_size fs files) sz = Some ps"
    by simp
  with m show ?thesis
    by (auto split: if_splits)
qed

text \<open>
  Claim C7. \<^verbatim>\<open>find_duplicates\<close> computes a fingerprint only for the members of size
  buckets with two or more members: a file whose size bucket is the file alone, and more
  generally a path such that at most one scanned path has its size, is never passed to
  \<^verbatim>\<open>compute_file_hash\<close>. Every group that is returned has at least two members.
  \<open>new\<close> is the list of the paths hashed during the call.
\<close>

theorem unique_size_never_hashed:
  "\<exists>dups new.
     find_duplicates env root_dir include_hidden exclude_globs w =
       (Inr dups, w\<lparr>hash_calls := hash_calls w @ new\<rparr>) \<and>
     (\<forall>(h, ps)\<in>set dups. 2 \<le> length ps) \<and>
     (\<forall>p sz. (sz, [p]) \<in> set (group_files_by_size (filesystem w)
                 (iter_files env (filesystem w) root_dir include_hidden exclude_globs)) \<longrightarrow>
        p \<notin> set new) \<and>
     (\<forall>p. length (filter (\<lambda>q. st_size (filesystem w) q = st_size (filesystem w) p)
                 (iter_files env (filesystem w) root_dir include_hidden exclude_globs)) \<le> 1 \<longrightarrow>
        p \<notin> set new)"
proof -
  let ?files = "iter_files env (filesystem w) root_dir include_hidden exclude_globs"
  let ?b = "group_files_by_size (filesystem w) ?files"
  let ?new = "concat (map snd (filter (\<lambda>(sz, ps). \<not> length ps < 2) ?b))"
  from find_duplicates_effect [of env root_dir include_hidden exclude_globs w] obtain dups where
    run: "find_duplicates env root_dir include_hidden exclude_globs w =
            (Inr dups, w\<lparr>hash_calls := hash_calls w @ ?new\<rparr>)"
    and two: "\<forall>(h, ps)\<in>set dups. 2 \<le> length ps"
    by blast
  have hashed: "\<exists>sz ps. (sz, ps) \<in> set ?b \<and> 2 \<le> length ps \<and> p \<in> set ps \<and>
      ps = filter (\<lambda>q. st_size (filesystem w) q = Some sz) ?files" if "p \<in> set ?new" for p
  proof -
    from that obtain sz ps where m: "(sz, ps) \<in> set ?b" "\<not> length ps < 2" "p \<in> set ps"
      by auto
    with bucket_members [OF m(1)] show ?thesis by (intro exI [of _ sz] exI [of _ ps]) simp
  qed
  have a: "p \<notin> set ?new" if "(sz, [p]) \<in> set ?b" for p sz
  proof
    assume "p \<in> set ?new"
    from hashed [OF this] obtain sz' ps where
      m: "2 \<le> length ps" "p \<in> set ps" "ps = filter (\<lambda>q. st_size (filesystem w) q = Some sz') ?files"
      by blast
    from bucket_members [OF that] have
      one: "[p] = filter (\<lambda>q. st_size (filesystem w) q = Some sz) ?files" .
    then have "p \<in> set (filter (\<lambda>q. st_size (filesystem w) q = Some sz) ?files)"
      by (metis list.set_intros(1))
    then have "st_size (filesystem w) p = Some sz" by simp
    moreover from m(2,3) have "st_size (filesystem w) p = Some sz'" by simp
    ultimately have "sz' = sz" by simp
    with m(3) one have "ps = [p]" by simp
    with m(1) show False by simp
  qed
  have b: "p \<notin> set ?new"
    if "length (filter (\<lambda>q. st_size (filesystem w) q = st_size (filesystem w) p) ?files) \<le> 1" for p
  proof
    assume "p \<in> set ?new"
    from hashed [OF this] obtain sz' ps where
      m: "2 \<le> length ps" "p \<in> set ps" "ps = filter (\<lambda>q. st_size (filesystem w) q = Some sz') ?files"
      by blast
    from m(2,3) have "st_size (filesystem w) p = Some sz'" by simp
    with m(3) have "ps = filter (\<lambda>q. st_size (filesystem w) q = st_size (filesystem w) p) ?files"
      by simp
    with m(1) that show False by simp
  qed
  from run two a b show ?thesis
    by (intro exI [of _ dups] exI [of _ ?new]) blast
qed

theorem unique_size_never_hashed_witness:
  "(20, [[''/'', ''r'', ''d.txt'']]) \<in> set (group_files_by_size (filesystem (world_of fs_dups_ab))
       (iter_files env_demo (filesystem (world_of fs_dups_ab)) [''/'', ''r''] False [])) \<and>
   find_duplicates env_demo [''/'', ''r''] False [] (world_of fs_dups_ab) =
     (Inr [(''0123456789'', [[''/'', ''r'', ''a.txt''], [''/'', ''r'', ''b.txt'']])],
      (world_of fs_dups_ab)\<lparr>hash_calls :=
         [[''/'', ''r'', ''a.txt''], [''/'', ''r'', ''b.txt''], [''/'', ''r'', ''c.txt'']]\<rparr>) \<and>
   [''/'', ''r'', ''d.txt''] \<notin> set (hash_calls (snd (find_duplicates env_demo [''/'', ''r''] False []
       (world_of fs_dups_ab))))"
proof -
  have b: "(20, [[''/'', ''r'', ''d.txt'']]) \<in> set (group_files_by_size (filesystem (world_of fs_dups_ab))
       (iter_files env_demo (filesystem (world_of fs_dups_ab)) [''/'', ''r''] False []))"
    by code_simp
  have r: "find_duplicates env_demo [''/'', ''r''] False [] (world_of fs_dups_ab) =
     (Inr [(''0123456789'', [[''/'', ''r'', ''a.txt''], [''/'', ''r'', ''b.txt'']])],
      (world_of fs_dups_ab)\<lparr>hash_calls :=
         [[''/'', ''r'', ''a.txt''], [''/'', ''r'', ''b.txt''], [''/'', ''r'', ''c.txt'']]\<rparr>)"
    by code_simp
  from unique_size_never_hashed [of env_demo "[''/'', ''r'']" False "[]" "world_of fs_dups_ab"]
  obtain dups new where
    run: "find_duplicates env_demo [''/'', ''r''] False [] (world_of fs_dups_ab) =
       (Inr dups, (world_of fs_dups_ab)\<lparr>hash_calls := hash_calls (world_of fs_dups_ab) @ new\<rparr>)"
    and u: "\<forall>p sz. (sz, [p]) \<in> set (group_files_by_size (filesystem (world_of fs_dups_ab))
                 (iter_files env_demo (filesystem (world_of fs_dups_ab)) [''/'', ''r''] False [])) \<longrightarrow>
        p \<notin> set new"
    by blast
  from u b have "[''/'', ''r'', ''d.txt''] \<notin> set new" by blast
  with run have "[''/'', ''r'', ''d.txt''] \<notin> set (hash_calls (snd (find_duplicates env_demo [''/'', ''r''] False []
       (world_of fs_dups_ab))))"
    by (simp add: world_of_def)
  with b r show ?thesis by simp
qed

lemma dedupe_groups_report:
  assumes "\<forall>(h, ps)\<in>set dups. ps \<noteq> []"
  shows "dedupe_groups ''report'' duplicates_dir dry_run dups n w =
           (Inr n, w\<lparr>stdout := stdout w @ concat (map report_lines dups)\<rparr>)"
  using assms
proof (induction dups arbitrary: w)
  case Nil
  show ?case by simp
next
  case (Cons g dups)
  obtain digest paths where g: "g = (digest, paths)" by (cases g)
  with Cons.prems have "paths \<noteq> []" by simp
  then obtain original where o: "keep_original paths = Some original"
    by (cases paths) (auto simp: keep_original_def)
  from Cons.prems have rest: "\<forall>(h, ps)\<in>set dups. ps \<noteq> []" by simp
  show ?case
    unfolding g
    by (simp add: o Let_def dedupe_others_report Cons.IH [OF rest] report_lines_def print_def)
qed

lemma dedupe_action_report:
  "\<exists>dups new.
     find_duplicates env root_dir include_hidden exclude_globs w =
       (Inr dups, w\<lparr>hash_calls := hash_calls w @ new\<rparr>) \<and>
     (\<forall>dry_run.
        dedupe_action env root_dir ''report'' duplicates_dir include_hidden exclude_globs dry_run w =
          (Inr (length dups, 0),
           w\<lparr>hash_calls := hash_calls w @ new,
             stdout := stdout w @
               (if dups = [] then [''No duplicates found.'']
                else (''Found '' @ str_nat (length dups) @ '' duplicate groups.'') #
                     concat (map report_lines dups))\<rparr>))"
proof -
  from find_duplicates_effect [of env root_dir include_hidden exclude_globs w] obtain dups new where
    run: "find_duplicates env root_dir include_hidden exclude_globs w =
            (Inr dups, w\<lparr>hash_calls := hash_calls w @ new\<rparr>)"
    and two: "\<forall>(h, ps)\<in>set dups. 2 \<le> length ps"
    by blast
  from two have ne: "\<forall>(h, ps)\<in>set dups. ps \<noteq> []" by auto
  have "dedupe_action env root_dir ''report'' duplicates_dir include_hidden exclude_globs d w =
       (Inr (length dups, 0),
        w\<lparr>hash_calls := hash_calls w @ new,
          stdout := stdout w @
          (if dups = [] then [''No duplicates found.'']
           else (''Found '' @ str_nat (length dups) @ '' duplicate groups.'') #
                concat (map report_lines dups))\<rparr>)" for d
    using run by (simp add: dedupe_action_def Let_def dedupe_groups_report [OF ne] print_def)
  with run show ?thesis by blast
qed

lemma dedupe_action_report_filesystem:
  "filesystem (snd (dedupe_action env root_dir ''report'' duplicates_dir include_hidden
                      exclude_globs dry_run w)) = filesystem w"
  using dedupe_action_report [of env root_dir include_hidden exclude_globs w duplicates_dir]
  by auto

text \<open>
  Claim C8. In report mode \<^verbatim>\<open>dedupe_action\<close> leaves the file system as it was,
  whatever \<open>dry_run\<close> is, and the two values of \<open>dry_run\<close> give the same result and the
  same output. It returns the number of groups and zero operated files, and prints, after
  the header, the keep line of every group followed by a duplicate line for each of its
  other members. \<^verbatim>\<open>main\<close> makes no directory before it either.
\<close>

theorem dedupe_report_never_mutates:
  "\<exists>dups w1.
     find_duplicates env root_dir include_hidden exclude_globs w = (Inr dups, w1) \<and>
     filesystem w1 = filesystem w \<and> stdout w1 = stdout w \<and>
     dedupe_action env root_dir ''report'' duplicates_dir include_hidden exclude_globs dry_run w =
       (Inr (length dups, 0),
        w1\<lparr>stdout := stdout w @
          (if dups = [] then [''No duplicates found.'']
           else (''Found '' @ str_nat (length dups) @ '' duplicate groups.'') #
                concat (map report_lines dups))\<rparr>) \<and>
     filesystem (snd (dedupe_action env root_dir ''report'' duplicates_dir include_hidden
                        exclude_globs dry_run w)) = filesystem w \<and>
     dedupe_action env root_dir ''report'' duplicates_dir include_hidden exclude_globs True w =
       dedupe_action env root_dir ''report'' duplicates_dir include_hidden exclude_globs False w \<and>
     (arg_dedupe a = Some ''report'' \<longrightarrow>
        filesystem (snd (main_dedupe env a root_dir duplicates_dir w)) = filesystem w)"
proof -
  from dedupe_action_report [of env root_dir include_hidden exclude_globs w duplicates_dir]
  obtain dups new where
    run: "find_duplicates env root_dir include_hidden exclude_globs w =
            (Inr dups, w\<lparr>hash_calls := hash_calls w @ new\<rparr>)"
    and act: "\<forall>dry_run.
        dedupe_action env root_dir ''report'' duplicates_dir include_hidden exclude_globs dry_run w =
          (Inr (length dups, 0),
           w\<lparr>hash_calls := hash_calls w @ new,
             stdout := stdout w @
               (if dups = [] then [''No duplicates found.'']
                else (''Found '' @ str_nat (length dups) @ '' duplicate groups.'') #
                     concat (map report_lines dups))\<rparr>)"
    by blast
  have m: "arg_dedupe a = Some ''report'' \<longrightarrow>
        filesystem (snd (main_dedupe env a root_dir duplicates_dir w)) = filesystem w"
  proof
    assume r: "arg_dedupe a = Some ''report''"
    obtain res w' where d: "dedupe_action env root_dir ''report'' duplicates_dir
        (arg_include_hidden a) (arg_exclude_glob a) (\<not> arg_apply a) w = (res, w')"
      by (cases "dedupe_action env root_dir ''report'' duplicates_dir
        (arg_include_hidden a) (arg_exclude_glob a) (\<not> arg_apply a) w")
    with dedupe_action_report_filesystem [of env root_dir duplicates_dir "arg_include_hidden a"
        "arg_exclude_glob a" "\<not> arg_apply a" w]
    have "filesystem w' = filesystem w" by simp
    with r d show "filesystem (snd (main_dedupe env a root_dir duplicates_dir w)) = filesystem w"
      by (auto simp: main_dedupe_def print_def split: sum.splits prod.splits)
  qed
  show ?thesis
    using run act m by (intro exI [of _ dups] exI [of _ "w\<lparr>hash_calls := hash_calls w @ new\<rparr>"]) simp
qed

theorem dedupe_report_never_mutates_witness:
  "dedupe_action env_demo [''/'', ''r''] ''report'' [''/'', ''r'', ''_duplicates''] False [] False
     (world_of fs_dups_ab) =
   (Inr (1, 0),
    \<lparr>filesystem = fs_dups_ab,
       stdout = [''Found 1 duplicate groups.'',
                 ''Hash 0123456789'' @ ellipsis @ '' keep: /r/a.txt'',
                 ''[DRY-RUN] duplicate: /r/b.txt''],
       hash_calls = [[''/'', ''r'', ''a.txt''], [''/'', ''r'', ''b.txt''], [''/'', ''r'', ''c.txt'']]\<rparr>)"
proof -
  have f: "find_duplicates env_demo [''/'', ''r''] False [] (world_of fs_dups_ab) =
     (Inr [(''0123456789'', [[''/'', ''r'', ''a.txt''], [''/'', ''r'', ''b.txt'']])],
      (world_of fs_dups_ab)\<lparr>hash_calls :=
         [[''/'', ''r'', ''a.txt''], [''/'', ''r'', ''b.txt''], [''/'', ''r'', ''c.txt'']]\<rparr>)"
    by code_simp
  have l: "report_lines (''0123456789'', [[''/'', ''r'', ''a.txt''], [''/'', ''r'', ''b.txt'']]) =
     [''Hash 0123456789'' @ ellipsis @ '' keep: /r/a.txt'', ''[DRY-RUN] duplicate: /r/b.txt'']"
    by code_simp
  have n: "str_nat 1 = ''1''" by code_simp
  from dedupe_report_never_mutates [of env_demo "[''/'', ''r'']" False "[]" "world_of fs_dups_ab"
      "[''/'', ''r'', ''_duplicates'']" False] f l n
  show ?thesis by (auto simp: world_of_def)
qed

subsection \<open>read\_or\_create\_key\<close>















end
